theory Spec2Isabelle
  imports Main
begin

section \<open>Dates\<close>

text \<open>
  A JavaScript \<^verbatim>\<open>Date\<close> is a number of milliseconds. The model keeps that number, read on
  the local wall clock: \<open>getTime\<close> is the number of milliseconds since local midnight of
  1 January 1970, a Thursday. Every calendar day has 86400000 milliseconds (no daylight-saving
  change), so the local fields of a date are arithmetic on that number. Invalid dates
  (\<^verbatim>\<open>NaN\<close>) are not values of the type, and the number has no bound.
\<close>

datatype Date = MkDate (getTime: int)

type_synonym Day = int

definition MS_PER_DAY :: int where
  "MS_PER_DAY = 86400000"

definition dayNumber :: "Date \<Rightarrow> int" where
  "dayNumber d = getTime d div MS_PER_DAY"

definition msOfDay :: "Date \<Rightarrow> int" where
  "msOfDay d = getTime d mod MS_PER_DAY"

text \<open>\<^verbatim>\<open>getDay()\<close>: 0 is Sunday, 6 is Saturday; day number 0 is a Thursday.\<close>

definition getDay :: "Date \<Rightarrow> Day" where
  "getDay d = (dayNumber d + 4) mod 7"

definition getHours :: "Date \<Rightarrow> int" where
  "getHours d = msOfDay d div 3600000"

definition getMinutes :: "Date \<Rightarrow> int" where
  "getMinutes d = (msOfDay d mod 3600000) div 60000"

definition getSeconds :: "Date \<Rightarrow> int" where
  "getSeconds d = (msOfDay d mod 60000) div 1000"

definition getMilliseconds :: "Date \<Rightarrow> int" where
  "getMilliseconds d = msOfDay d mod 1000"

text \<open>\<^verbatim>\<open>d.setHours(h, m, s, ms)\<close>: same calendar day, the given time of day.\<close>

definition setHours :: "Date \<Rightarrow> int \<Rightarrow> int \<Rightarrow> int \<Rightarrow> int \<Rightarrow> Date" where
  "setHours d h m s ms =
     MkDate (dayNumber d * MS_PER_DAY + h * 3600000 + m * 60000 + s * 1000 + ms)"

text \<open>\<^verbatim>\<open>d.setDate(d.getDate() + 1)\<close>: the following calendar day, same time of day.\<close>

definition setDateToNextDay :: "Date \<Rightarrow> Date" where
  "setDateToNextDay d = MkDate (getTime d + MS_PER_DAY)"

text \<open>
  The two clock readings of the code: \<^verbatim>\<open>getCurrentDateAtCanadaEasternTimeZone()\<close> (the wall
  clock of the business time zone) and \<^verbatim>\<open>new Date()\<close> (the wall clock of the server). One
  validation pass reads each of them as one value.
\<close>

record Clock =
  easternNow :: Date
  systemNow :: Date

subsection \<open>Constants and helpers of the domain\<close>

text \<open>
  Modelled from the spec: \<^verbatim>\<open>date.constants.ts\<close> is not among the sources. The weekday
  indices are those of \<^verbatim>\<open>getDay()\<close>, and a week has seven days.
\<close>

definition SUNDAY :: Day where "SUNDAY = 0"
definition MONDAY :: Day where "MONDAY = 1"
definition TUESDAY :: Day where "TUESDAY = 2"
definition WEDNESDAY :: Day where "WEDNESDAY = 3"
definition THURSDAY :: Day where "THURSDAY = 4"
definition FRIDAY :: Day where "FRIDAY = 5"
definition SATURDAY :: Day where "SATURDAY = 6"

definition NUMBER_OF_DAYS_IN_A_WEEK :: int where
  "NUMBER_OF_DAYS_IN_A_WEEK = 7"

text \<open>
  Modelled from the spec: \<^verbatim>\<open>date.utils.ts\<close> is not among the sources. The spec compares
  dates "ignoring time-of-day", at "day granularity", and counts the days a date is "out":
  both helpers work on calendar days. The tests of \<^verbatim>\<open>order.spec.ts\<close> agree: a date
  earlier on the day of now is not before now, and a Thursday at 01:01, one week after a
  Thursday at 19:00, is 7 days after it.
\<close>

definition isFirstDateBeforeSecondDateIgnoringHours :: "Date \<Rightarrow> Date \<Rightarrow> bool" where
  "isFirstDateBeforeSecondDateIgnoringHours firstDate secondDate \<longleftrightarrow>
     dayNumber firstDate < dayNumber secondDate"

definition getNumberOfDaysBetweenFirstDateAndSecondDate :: "Date \<Rightarrow> Date \<Rightarrow> int" where
  "getNumberOfDaysBetweenFirstDateAndSecondDate firstDate secondDate =
     dayNumber secondDate - dayNumber firstDate"

text \<open>
  Modelled from the spec: \<^verbatim>\<open>order-pick-up-constraints.ts\<close> and
  \<^verbatim>\<open>order-delivery-constraints.ts\<close> are not among the sources. Sunday and Monday are the
  closing days, the cutoff hour is 19:00, delivery happens on Thursday and the same-week
  cutoff is Tuesday 19:00. The table of first available days is a parameter of the model.
\<close>

definition CLOSING_DAYS :: "Day list" where
  "CLOSING_DAYS = [SUNDAY, MONDAY]"

definition
  MAXIMUM_HOUR_TO_PLACE_A_PICK_UP_ORDER_BEFORE_BEING_CONSIDERED_AS_PLACED_THE_FOLLOWING_DAY :: int
where
  "MAXIMUM_HOUR_TO_PLACE_A_PICK_UP_ORDER_BEFORE_BEING_CONSIDERED_AS_PLACED_THE_FOLLOWING_DAY = 19"

definition DELIVERY_DAY :: Day where
  "DELIVERY_DAY = THURSDAY"

definition MAXIMUM_DAY_FOR_DELIVERY_SAME_WEEK :: Day where
  "MAXIMUM_DAY_FOR_DELIVERY_SAME_WEEK = TUESDAY"

definition MAXIMUM_HOUR_FOR_DELIVERY_SAME_WEEK :: int where
  "MAXIMUM_HOUR_FOR_DELIVERY_SAME_WEEK = 19"

record AvailableDayForAPickUpOrder =
  whenOrderIsPlacedOn :: Day
  firstAvailableDay :: Day

section \<open>Errors\<close>

text \<open>
  An error is its class and its message. A message is the template literal of the source:
  the literal pieces and the interpolated values, in order.
\<close>

datatype fragment =
  Txt string
  | Iso Date
  | Num int
  | OptNum "int option"

datatype error =
  InvalidOrderError "fragment list"
  | InvalidUserError "fragment list"
  | InvalidClosingPeriodError "fragment list"
  | TypeError

section \<open>The next date having a weekday\<close>

text \<open>
  \<^verbatim>\<open>getNextDateHavingDay\<close> is a do-while loop on a date that starts at \<^verbatim>\<open>new Date()\<close>.
  Its argument is \<^verbatim>\<open>undefined\<close> (\<open>None\<close>) when the table has no row for the current day.
  A run that never leaves the loop is the value \<open>None\<close>.
\<close>

partial_function (option) getNextDateHavingDay_loop :: "Day option \<Rightarrow> Date \<Rightarrow> Date option" where
  "getNextDateHavingDay_loop day firstAvailableDate =
     (if Some (getDay (setDateToNextDay firstAvailableDate)) \<noteq> day
      then getNextDateHavingDay_loop day (setDateToNextDay firstAvailableDate)
      else Some (setDateToNextDay firstAvailableDate))"

declare getNextDateHavingDay_loop.simps [code]

definition getNextDateHavingDay :: "Clock \<Rightarrow> Day option \<Rightarrow> Date option" where
  "getNextDateHavingDay clock day = getNextDateHavingDay_loop day (systemNow clock)"

text \<open>
  The words of the spec, for comparison with the loop: the next calendar occurrence of a
  weekday, as the number of the first calendar day strictly after the day of \<open>start\<close> that
  falls on that weekday.
\<close>

definition nextOccurrenceOfDay :: "Date \<Rightarrow> Day \<Rightarrow> int" where
  "nextOccurrenceOfDay start day = dayNumber start + 1 + (day - getDay start - 1) mod 7"

section \<open>Regular expression of the e-mail address\<close>

text \<open>
  \<^verbatim>\<open>EMAIL_REGEX.test\<close> is anchored at both ends and has no back-reference, so it
  decides membership in a regular language. The matcher takes Brzozowski derivatives.
  Strings are lists of 8-bit characters: the model covers Latin-1 text.
\<close>

datatype regexp =
  Zero
  | One
  | Atom "char \<Rightarrow> bool"
  | Alt regexp regexp
  | Seq regexp regexp
  | Star regexp

fun nullable :: "regexp \<Rightarrow> bool" where
  "nullable Zero = False"
| "nullable One = True"
| "nullable (Atom p) = False"
| "nullable (Alt r s) = (nullable r \<or> nullable s)"
| "nullable (Seq r s) = (nullable r \<and> nullable s)"
| "nullable (Star r) = True"

fun deriv :: "char \<Rightarrow> regexp \<Rightarrow> regexp" where
  "deriv c Zero = Zero"
| "deriv c One = Zero"
| "deriv c (Atom p) = (if p c then One else Zero)"
| "deriv c (Alt r s) = Alt (deriv c r) (deriv c s)"
| "deriv c (Seq r s) =
     (if nullable r then Alt (Seq (deriv c r) s) (deriv c s) else Seq (deriv c r) s)"
| "deriv c (Star r) = Seq (deriv c r) (Star r)"

fun test :: "regexp \<Rightarrow> string \<Rightarrow> bool" where
  "test r [] = nullable r"
| "test r (c # cs) = test (deriv c r) cs"

definition Plus :: "regexp \<Rightarrow> regexp" where
  "Plus r = Seq r (Star r)"

definition Opt :: "regexp \<Rightarrow> regexp" where
  "Opt r = Alt r One"

definition Chr :: "char \<Rightarrow> regexp" where
  "Chr c = Atom (\<lambda>x. x = c)"

definition code :: "char \<Rightarrow> nat" where
  "code c = of_char c"

definition isWhiteSpace :: "char \<Rightarrow> bool" where
  "isWhiteSpace c \<longleftrightarrow> code c \<in> {9, 10, 11, 12, 13, 32, 160}"

definition isDigit :: "char \<Rightarrow> bool" where
  "isDigit c \<longleftrightarrow> 48 \<le> code c \<and> code c \<le> 57"

definition isLetter :: "char \<Rightarrow> bool" where
  "isLetter c \<longleftrightarrow> (65 \<le> code c \<and> code c \<le> 90) \<or> (97 \<le> code c \<and> code c \<le> 122)"

text \<open>The class \<^verbatim>\<open>[^<>()\[\]\\.,;:\s@"]\<close>; 34 is the double quote, 92 the backslash.\<close>

definition isPlainChar :: "char \<Rightarrow> bool" where
  "isPlainChar c \<longleftrightarrow>
     \<not> (c \<in> set ''<>()[].,;:@'' \<or> code c = 92 \<or> code c = 34 \<or> isWhiteSpace c)"

text \<open>The dot of \<^verbatim>\<open>".+"\<close> matches everything but a line terminator.\<close>

definition isNotLineTerminator :: "char \<Rightarrow> bool" where
  "isNotLineTerminator c \<longleftrightarrow> code c \<noteq> 10 \<and> code c \<noteq> 13"

definition isLabelChar :: "char \<Rightarrow> bool" where
  "isLabelChar c \<longleftrightarrow> isLetter c \<or> c = CHR ''-'' \<or> isDigit c"

definition oneToThreeDigits :: regexp where
  "oneToThreeDigits = Seq (Atom isDigit) (Opt (Seq (Atom isDigit) (Opt (Atom isDigit))))"

definition EMAIL_REGEX :: regexp where
  "EMAIL_REGEX =
     Seq (Alt (Seq (Plus (Atom isPlainChar))
                   (Star (Seq (Chr CHR ''.'') (Plus (Atom isPlainChar)))))
              (Seq (Atom (\<lambda>c. code c = 34))
                   (Seq (Plus (Atom isNotLineTerminator)) (Atom (\<lambda>c. code c = 34)))))
    (Seq (Chr CHR ''@'')
         (Alt (Seq (Chr CHR ''['')
              (Seq oneToThreeDigits (Seq (Chr CHR ''.'')
              (Seq oneToThreeDigits (Seq (Chr CHR ''.'')
              (Seq oneToThreeDigits (Seq (Chr CHR ''.'')
              (Seq oneToThreeDigits (Chr CHR '']'')))))))))
              (Seq (Plus (Seq (Plus (Atom isLabelChar)) (Chr CHR ''.'')))
                   (Seq (Atom isLetter) (Seq (Atom isLetter) (Star (Atom isLetter)))))))"

section \<open>Products, commands and orders\<close>

text \<open>
  Modelled from the spec: the interfaces of products, commands and closing periods are not
  among the sources; their fields are the ones \<^verbatim>\<open>order.ts\<close> and
  \<^verbatim>\<open>closing-period.ts\<close> read and the ones the spec lists. A field that may be
  \<^verbatim>\<open>undefined\<close> or \<^verbatim>\<open>null\<close> is an option; for a string that the code tests with
  \<^verbatim>\<open>isEmpty\<close> only, the empty string also stands for the missing one. The fields of a
  command carry the suffix \<open>_cmd\<close>; the fields \<^verbatim>\<open>id\<close>, \<^verbatim>\<open>type\<close> and \<^verbatim>\<open>note\<close> of an
  order are \<open>order_id\<close>, \<open>orderType\<close> and \<open>note_order\<close>.
\<close>

type_synonym ProductId = int
type_synonym OrderId = int
type_synonym ClosingPeriodId = int

record ProductInterface =
  product_id :: ProductId
  name :: string
  description :: string
  price :: int
  status :: string

record ProductIdWithQuantity =
  productId :: ProductId
  quantity_cmd :: int

record ProductWithQuantity =
  product :: ProductInterface
  quantity :: int

record ClosingPeriodInterface =
  closingPeriod_id :: "ClosingPeriodId option"
  startDate :: Date
  endDate :: Date

record NewClosingPeriodCommand =
  startDate_cmd :: "Date option"
  endDate_cmd :: "Date option"

text \<open>The fields that \<^verbatim>\<open>NewOrderCommand | UpdateOrderCommand\<close> share, then each command.\<close>

record OrderCommand =
  products_cmd :: "ProductIdWithQuantity list"
  type_cmd :: string
  pickUpDate_cmd :: "Date option"
  deliveryDate_cmd :: "Date option"
  deliveryAddress_cmd :: "string option"
  reservationDate_cmd :: "Date option"
  note_cmd :: "string option"

record NewOrderCommand = OrderCommand +
  clientName_cmd :: string
  clientPhoneNumber_cmd :: string
  clientEmailAddress_cmd :: string

record UpdateOrderCommand = OrderCommand +
  orderId :: OrderId

record Order =
  order_id :: "OrderId option"
  clientName :: string
  clientPhoneNumber :: string
  clientEmailAddress :: string
  products :: "ProductWithQuantity list"
  orderType :: string
  pickUpDate :: "Date option"
  deliveryDate :: "Date option"
  deliveryAddress :: "string option"
  reservationDate :: "Date option"
  note_order :: "string option"

text \<open>
  Modelled from the spec: \<^verbatim>\<open>order-type.ts\<close> is not among the sources. The enumeration has
  the three members of the spec, each key being its own value.
\<close>

definition PICK_UP :: string where "PICK_UP = ''PICK_UP''"
definition DELIVERY :: string where "DELIVERY = ''DELIVERY''"
definition RESERVATION :: string where "RESERVATION = ''RESERVATION''"

definition OrderType_keys :: "string list" where
  "OrderType_keys = [PICK_UP, DELIVERY, RESERVATION]"

text \<open>lodash \<^verbatim>\<open>isEmpty\<close> on a string and on an optional string.\<close>

definition isEmpty :: "string \<Rightarrow> bool" where
  "isEmpty s \<longleftrightarrow> s = []"

definition isEmptyOpt :: "string option \<Rightarrow> bool" where
  "isEmptyOpt s \<longleftrightarrow> (case s of None \<Rightarrow> True | Some t \<Rightarrow> isEmpty t)"

section \<open>Validation of an order\<close>

definition assertClientNameIsValid :: "string \<Rightarrow> error + unit" where
  "assertClientNameIsValid clientName' =
     (if isEmpty clientName' then Inl (InvalidOrderError [Txt ''client name has to be defined''])
      else Inr ())"

definition assertClientPhoneNumberIsValid :: "string \<Rightarrow> error + unit" where
  "assertClientPhoneNumberIsValid clientPhoneNumber' =
     (if isEmpty clientPhoneNumber'
      then Inl (InvalidOrderError [Txt ''client phone number has to be defined''])
      else Inr ())"

definition assertClientEmailAddressIsValid :: "string \<Rightarrow> error + unit" where
  "assertClientEmailAddressIsValid clientEmailAddress' =
     (if isEmpty clientEmailAddress'
      then Inl (InvalidOrderError [Txt ''client email address has to be defined''])
      else if \<not> test EMAIL_REGEX clientEmailAddress'
      then Inl (InvalidOrderError [Txt ''invalid client email address '', Txt clientEmailAddress'])
      else Inr ())"

definition assertTypeIsValid :: "string \<Rightarrow> bool \<Rightarrow> error + unit" where
  "assertTypeIsValid type isAdmin =
     (if isEmpty type then Inl (InvalidOrderError [Txt ''order type has to be defined''])
      else if type \<notin> set OrderType_keys
      then Inl (InvalidOrderError [Txt ''unknown order type '', Txt type])
      else if type = RESERVATION \<and> \<not> isAdmin
      then Inl (InvalidUserError [Txt ''RESERVATION order type requires to be ADMIN''])
      else Inr ())"

text \<open>The \<^verbatim>\<open>forEach\<close> throws at the first quantity below 1.\<close>

definition assertProductsAreValid :: "ProductIdWithQuantity list \<Rightarrow> error + unit" where
  "assertProductsAreValid ps =
     (if ps = [] then Inl (InvalidOrderError [Txt ''an order must have at least one product''])
      else case find (\<lambda>productWithQuantity. quantity_cmd productWithQuantity < 1) ps of
             Some productWithQuantity \<Rightarrow>
               Inl (InvalidOrderError [Txt ''product quantity '',
                                       Num (quantity_cmd productWithQuantity),
                                       Txt '' has to be positive''])
           | None \<Rightarrow> Inr ())"

definition isInClosingPeriod :: "Date \<Rightarrow> ClosingPeriodInterface \<Rightarrow> bool" where
  "isInClosingPeriod date closingPeriod \<longleftrightarrow>
     getTime date \<ge> getTime (startDate closingPeriod) \<and>
     getTime date \<le> getTime (endDate closingPeriod)"

definition assertPickUpDateIsValid ::
  "Clock \<Rightarrow> string \<Rightarrow> ClosingPeriodInterface list \<Rightarrow> Date option \<Rightarrow> error + unit"
where
  "assertPickUpDateIsValid clock type closingPeriods pickUpDate' =
     (if type = PICK_UP then
        (case pickUpDate' of
           None \<Rightarrow> Inl (InvalidOrderError
                        [Txt ''a pick-up date has to be defined when order type is pick-up''])
         | Some d \<Rightarrow>
             if isFirstDateBeforeSecondDateIgnoringHours d (easternNow clock)
             then Inl (InvalidOrderError
                        [Txt ''pick-up date '', Iso d, Txt '' has to be in the future''])
             else if getDay d \<in> set CLOSING_DAYS
             then Inl (InvalidOrderError
                        [Txt ''pick-up date '', Iso d,
                         Txt '' has to be between a Tuesday and a Saturday''])
             else if list_ex (isInClosingPeriod d) closingPeriods
             then Inl (InvalidOrderError
                        [Txt ''pick-up date '', Iso d, Txt '' has to be outside closing periods''])
             else Inr ())
      else Inr ())"

definition assertDeliveryAddressIsValid :: "string \<Rightarrow> string option \<Rightarrow> error + unit" where
  "assertDeliveryAddressIsValid type deliveryAddress' =
     (if type = DELIVERY \<and> isEmptyOpt deliveryAddress'
      then Inl (InvalidOrderError
                 [Txt ''a delivery address has to be defined when order type is delivery''])
      else Inr ())"

definition assertDeliveryDateIsValid ::
  "Clock \<Rightarrow> string \<Rightarrow> ClosingPeriodInterface list \<Rightarrow> Date option \<Rightarrow> error + unit"
where
  "assertDeliveryDateIsValid clock type closingPeriods deliveryDate' =
     (if type = DELIVERY then
        (case deliveryDate' of
           None \<Rightarrow> Inl (InvalidOrderError
                        [Txt ''a delivery date has to be defined when order type is delivery''])
         | Some d \<Rightarrow>
             if isFirstDateBeforeSecondDateIgnoringHours d (easternNow clock)
             then Inl (InvalidOrderError
                        [Txt ''delivery date '', Iso d, Txt '' has to be in the future''])
             else if list_ex (isInClosingPeriod d) closingPeriods
             then Inl (InvalidOrderError
                        [Txt ''delivery date '', Iso d, Txt '' has to be outside closing periods''])
             else if getDay d \<noteq> DELIVERY_DAY
             then Inl (InvalidOrderError
                        [Txt ''delivery date '', Iso d, Txt '' has to be a Thursday''])
             else Inr ())
      else Inr ())"

definition assertReservationDateIsValid ::
  "Clock \<Rightarrow> string \<Rightarrow> ClosingPeriodInterface list \<Rightarrow> Date option \<Rightarrow> error + unit"
where
  "assertReservationDateIsValid clock type closingPeriods reservationDate' =
     (if type = RESERVATION then
        (case reservationDate' of
           None \<Rightarrow> Inl (InvalidOrderError
                        [Txt ''a reservation date has to be defined when order type is reservation''])
         | Some d \<Rightarrow>
             if isFirstDateBeforeSecondDateIgnoringHours d (easternNow clock)
             then Inl (InvalidOrderError
                        [Txt ''reservation date '', Iso d, Txt '' has to be in the future''])
             else if getDay d \<in> set CLOSING_DAYS
             then Inl (InvalidOrderError
                        [Txt ''reservation date '', Iso d,
                         Txt '' has to be between a Tuesday and a Saturday''])
             else if list_ex (isInClosingPeriod d) closingPeriods
             then Inl (InvalidOrderError
                        [Txt ''reservation date '', Iso d,
                         Txt '' has to be outside closing periods''])
             else Inr ())
      else Inr ())"

subsection \<open>The lead-time rules of a non-admin creation\<close>

text \<open>The three errors of the lead-time rules.\<close>

definition cannotBeSameDayAsNow :: "Date \<Rightarrow> error" where
  "cannotBeSameDayAsNow pickUpDate' =
     InvalidOrderError [Txt ''pick-up date '', Iso pickUpDate', Txt '' cannot be same day as now'']"

definition hasToBeAtLeastDaysAfterNow :: "Date \<Rightarrow> int \<Rightarrow> error" where
  "hasToBeAtLeastDaysAfterNow pickUpDate' numberOfDays =
     InvalidOrderError [Txt ''pick-up date '', Iso pickUpDate', Txt '' has to be at least '',
                        Num numberOfDays, Txt '' days after now'']"

definition hasToBeOneOfTheNextAvailableThursday :: "Date \<Rightarrow> error" where
  "hasToBeOneOfTheNextAvailableThursday deliveryDate' =
     InvalidOrderError [Txt ''delivery date '', Iso deliveryDate',
                        Txt '' has to be one of the next available Thursday'']"

text \<open>
  The first row of the table for the current day, \<^verbatim>\<open>filter(...).map(...)[0]\<close>:
  \<^verbatim>\<open>undefined\<close> when no row matches.
\<close>

definition lookupFirstAvailableDay :: "AvailableDayForAPickUpOrder list \<Rightarrow> Day \<Rightarrow> Day option" where
  "lookupFirstAvailableDay table currentDay =
     (case map firstAvailableDay
             (filter (\<lambda>availableDayForAPickUpOrder.
                        whenOrderIsPlacedOn availableDayForAPickUpOrder = currentDay) table) of
        [] \<Rightarrow> None
      | d # _ \<Rightarrow> Some d)"

text \<open>\<open>now\<close> after the shift of the cutoff hour.\<close>

definition effectiveNow :: "Clock \<Rightarrow> Date" where
  "effectiveNow clock =
     (if getHours (easternNow clock) \<ge>
           MAXIMUM_HOUR_TO_PLACE_A_PICK_UP_ORDER_BEFORE_BEING_CONSIDERED_AS_PLACED_THE_FOLLOWING_DAY
      then setDateToNextDay (easternNow clock) else easternNow clock)"

text \<open>
  The result is \<open>None\<close> when the loop of \<^verbatim>\<open>getNextDateHavingDay\<close> never ends. The date
  is \<^verbatim>\<open>undefined\<close> only when the constructor did not validate it before; reading a field
  of it is a \<^verbatim>\<open>TypeError\<close>.
\<close>

definition assertPickUpDateIsEqualOrAfterTheFirstAvailableDay ::
  "Clock \<Rightarrow> AvailableDayForAPickUpOrder list \<Rightarrow> string \<Rightarrow> Date option \<Rightarrow> (error + unit) option"
where
  "assertPickUpDateIsEqualOrAfterTheFirstAvailableDay clock table type pickUpDate' =
     (if type = PICK_UP then
        (case pickUpDate' of
           None \<Rightarrow> Some (Inl TypeError)
         | Some d \<Rightarrow>
            (let now = effectiveNow clock;
                 numberOfDaysBetweenNowAndPickUpDate =
                   getNumberOfDaysBetweenFirstDateAndSecondDate now d;
                 isPickUpDateInTheNextSixDays =
                   (numberOfDaysBetweenNowAndPickUpDate < NUMBER_OF_DAYS_IN_A_WEEK);
                 currentDay = getDay now
             in if isPickUpDateInTheNextSixDays \<and> currentDay - getDay d = 0
                then Some (Inl (cannotBeSameDayAsNow d))
                else
                  (case getNextDateHavingDay clock (lookupFirstAvailableDay table currentDay) of
                     None \<Rightarrow> None
                   | Some firstAvailableDate \<Rightarrow>
                       if isFirstDateBeforeSecondDateIgnoringHours d firstAvailableDate
                       then Some (Inl (hasToBeAtLeastDaysAfterNow d
                              (getNumberOfDaysBetweenFirstDateAndSecondDate
                                 now firstAvailableDate)))
                       else Some (Inr ()))))
      else Some (Inr ()))"

definition assertDeliveryDateIsEqualOrAfterTheFirstAvailableDay ::
  "Clock \<Rightarrow> string \<Rightarrow> Date option \<Rightarrow> error + unit"
where
  "assertDeliveryDateIsEqualOrAfterTheFirstAvailableDay clock type deliveryDate' =
     (if type = DELIVERY then
        (case deliveryDate' of
           None \<Rightarrow> Inl TypeError
         | Some d \<Rightarrow>
            (let now = easternNow clock;
                 numberOfDaysBetweenNowAndDeliveryDate =
                   getNumberOfDaysBetweenFirstDateAndSecondDate now d;
                 isDeliveryDateInTheSameWeekAsNow =
                   (numberOfDaysBetweenNowAndDeliveryDate < NUMBER_OF_DAYS_IN_A_WEEK \<and>
                    getDay now \<le> getDay d)
             in if isDeliveryDateInTheSameWeekAsNow \<and>
                   (getDay now > MAXIMUM_DAY_FOR_DELIVERY_SAME_WEEK \<or>
                    (getDay now = MAXIMUM_DAY_FOR_DELIVERY_SAME_WEEK \<and>
                     getHours now \<ge> MAXIMUM_HOUR_FOR_DELIVERY_SAME_WEEK))
                then Inl (hasToBeOneOfTheNextAvailableThursday d)
                else Inr ()))
      else Inr ())"

section \<open>Binding a command to an order\<close>

definition toProductWithQuantity ::
  "ProductIdWithQuantity \<Rightarrow> ProductInterface list \<Rightarrow> error + ProductWithQuantity"
where
  "toProductWithQuantity productIdWithQuantity activeProducts =
     (case find (\<lambda>p. product_id p = productId productIdWithQuantity) activeProducts of
        None \<Rightarrow> Inl (InvalidOrderError
                     [Txt ''product with id '', Num (productId productIdWithQuantity),
                      Txt '' not found''])
      | Some foundProduct \<Rightarrow>
          Inr \<lparr>product = foundProduct, quantity = quantity_cmd productIdWithQuantity\<rparr>)"

text \<open>\<^verbatim>\<open>command.products.map(...)\<close>: the first element that throws ends the map.\<close>

fun mapToProductWithQuantity ::
  "ProductIdWithQuantity list \<Rightarrow> ProductInterface list \<Rightarrow> error + ProductWithQuantity list"
where
  "mapToProductWithQuantity [] activeProducts = Inr []"
| "mapToProductWithQuantity (p # ps) activeProducts =
     (case toProductWithQuantity p activeProducts of
        Inl e \<Rightarrow> Inl e
      | Inr x \<Rightarrow>
          (case mapToProductWithQuantity ps activeProducts of
             Inl e \<Rightarrow> Inl e
           | Inr xs \<Rightarrow> Inr (x # xs)))"

text \<open>
  Statements in sequence: an error thrown by the first one ends the sequence.
\<close>

definition andThen :: "error + 'a \<Rightarrow> ('a \<Rightarrow> error + 'b) \<Rightarrow> error + 'b" where
  "andThen r f = (case r of Inl e \<Rightarrow> Inl e | Inr x \<Rightarrow> f x)"

text \<open>
  Each \<open>bind\<close> function takes the object \<^verbatim>\<open>this\<close> and returns it updated, or the error
  thrown; when it throws it has written no field yet.
\<close>

definition bindContactDetails :: "Order \<Rightarrow> NewOrderCommand \<Rightarrow> error + Order" where
  "bindContactDetails this command =
     andThen (assertClientNameIsValid (clientName_cmd command)) (\<lambda>_.
     andThen (assertClientPhoneNumberIsValid (clientPhoneNumber_cmd command)) (\<lambda>_.
     andThen (assertClientEmailAddressIsValid (clientEmailAddress_cmd command)) (\<lambda>_.
     Inr (this\<lparr>clientName := clientName_cmd command,
               clientPhoneNumber := clientPhoneNumber_cmd command,
               clientEmailAddress := clientEmailAddress_cmd command\<rparr>))))"

definition bindProductSelection ::
  "Order \<Rightarrow> 'a OrderCommand_scheme \<Rightarrow> ProductInterface list \<Rightarrow> error + Order"
where
  "bindProductSelection this command activeProducts =
     andThen (assertProductsAreValid (products_cmd command)) (\<lambda>_.
     andThen (mapToProductWithQuantity (products_cmd command) activeProducts) (\<lambda>resolved.
     Inr (this\<lparr>products := resolved\<rparr>)))"

definition bindOrderTypeSelection ::
  "Clock \<Rightarrow> Order \<Rightarrow> 'a OrderCommand_scheme \<Rightarrow> ClosingPeriodInterface list \<Rightarrow> bool
   \<Rightarrow> error + Order"
where
  "bindOrderTypeSelection clock this command closingPeriods isAdmin =
     andThen (assertTypeIsValid (type_cmd command) isAdmin) (\<lambda>_.
     andThen (assertPickUpDateIsValid clock (type_cmd command) closingPeriods
                (pickUpDate_cmd command)) (\<lambda>_.
     andThen (assertDeliveryDateIsValid clock (type_cmd command) closingPeriods
                (deliveryDate_cmd command)) (\<lambda>_.
     andThen (assertDeliveryAddressIsValid (type_cmd command) (deliveryAddress_cmd command)) (\<lambda>_.
     andThen (assertReservationDateIsValid clock (type_cmd command) closingPeriods
                (reservationDate_cmd command)) (\<lambda>_.
      (let this1 = this\<lparr>orderType := type_cmd command,
                         pickUpDate := None,
                         deliveryDate := None,
                         deliveryAddress := None,
                         reservationDate := None\<rparr>
       in Inr (if orderType this1 = PICK_UP
               then this1\<lparr>pickUpDate := pickUpDate_cmd command\<rparr>
               else if orderType this1 = DELIVERY
               then this1\<lparr>deliveryDate := deliveryDate_cmd command,
                          deliveryAddress := deliveryAddress_cmd command\<rparr>
               else if orderType this1 = RESERVATION
               then this1\<lparr>reservationDate := reservationDate_cmd command\<rparr>
               else this1)))))))"

section \<open>Creating and updating an order\<close>

text \<open>The object before the constructor has written a field: every field is undefined.\<close>

definition newObject :: Order where
  "newObject =
     \<lparr>order_id = None, clientName = [], clientPhoneNumber = [], clientEmailAddress = [],
      products = [], orderType = [], pickUpDate = None, deliveryDate = None,
      deliveryAddress = None, reservationDate = None, note_order = None\<rparr>"

text \<open>
  \<^verbatim>\<open>Order.factory.create\<close>: the constructor on an empty order. The result is the order, the
  error thrown, or \<open>None\<close> when the constructor never returns.
\<close>

definition create ::
  "Clock \<Rightarrow> AvailableDayForAPickUpOrder list \<Rightarrow> NewOrderCommand \<Rightarrow> ProductInterface list
   \<Rightarrow> ClosingPeriodInterface list \<Rightarrow> bool \<Rightarrow> (error + Order) option"
where
  "create clock table command activeProducts closingPeriods isAdmin =
     (case andThen (bindContactDetails (newObject\<lparr>order_id := None\<rparr>) command) (\<lambda>this1.
           andThen (bindProductSelection this1 command activeProducts) (\<lambda>this2.
           andThen (bindOrderTypeSelection clock this2 command closingPeriods isAdmin) (\<lambda>this3.
           Inr (this3\<lparr>note_order := note_cmd command\<rparr>)))) of
        Inl e \<Rightarrow> Some (Inl e)
      | Inr this4 \<Rightarrow>
          if \<not> isAdmin then
            (case assertPickUpDateIsEqualOrAfterTheFirstAvailableDay clock table
                    (type_cmd command) (pickUpDate_cmd command) of
               None \<Rightarrow> None
             | Some (Inl e) \<Rightarrow> Some (Inl e)
             | Some (Inr u) \<Rightarrow>
                (case assertDeliveryDateIsEqualOrAfterTheFirstAvailableDay clock
                        (type_cmd command) (deliveryDate_cmd command) of
                   Inl e \<Rightarrow> Some (Inl e)
                 | Inr v \<Rightarrow> Some (Inr this4)))
          else Some (Inr this4))"

text \<open>
  \<^verbatim>\<open>updateWith\<close> mutates \<^verbatim>\<open>this\<close>. The result is the error thrown, if any, and the
  object as the call leaves it.
\<close>

definition updateWith ::
  "Clock \<Rightarrow> Order \<Rightarrow> UpdateOrderCommand \<Rightarrow> ProductInterface list
   \<Rightarrow> ClosingPeriodInterface list \<Rightarrow> error option \<times> Order"
where
  "updateWith clock this command activeProducts closingPeriods =
     (if order_id this \<noteq> Some (orderId command)
      then (Some (InvalidOrderError
                   [Txt ''existing order id '', OptNum (order_id this),
                    Txt '' does not match command order id '', Num (orderId command)]),
            this)
      else
        (let isAdmin = True
         in case bindProductSelection this command activeProducts of
              Inl e \<Rightarrow> (Some e, this)
            | Inr this1 \<Rightarrow>
               (case bindOrderTypeSelection clock this1 command closingPeriods isAdmin of
                  Inl e \<Rightarrow> (Some e, this1)
                | Inr this2 \<Rightarrow> (None, this2\<lparr>note_order := note_cmd command\<rparr>))))"

section \<open>Closing periods\<close>

definition isBeforeNowIgnoringHours :: "Clock \<Rightarrow> Date \<Rightarrow> bool" where
  "isBeforeNowIgnoringHours clock date =
     (let now = setHours (systemNow clock) (getHours date) (getMinutes date)
                  (getSeconds date) (getMilliseconds date)
      in getTime date < getTime now)"

definition assertStartDateIsValid :: "Clock \<Rightarrow> Date option \<Rightarrow> error + unit" where
  "assertStartDateIsValid clock startDate' =
     (case startDate' of
        None \<Rightarrow> Inl (InvalidClosingPeriodError [Txt ''start date has to be defined''])
      | Some s \<Rightarrow>
          if isBeforeNowIgnoringHours clock s
          then Inl (InvalidClosingPeriodError [Txt ''start date has to be in the future''])
          else Inr ())"

text \<open>The start date is defined when the constructor calls this function.\<close>

definition assertEndDateIsValid :: "Clock \<Rightarrow> Date option \<Rightarrow> Date option \<Rightarrow> error + unit" where
  "assertEndDateIsValid clock startDate' endDate' =
     (case endDate' of
        None \<Rightarrow> Inl (InvalidClosingPeriodError [Txt ''end date has to be defined''])
      | Some e \<Rightarrow>
          if isBeforeNowIgnoringHours clock e
          then Inl (InvalidClosingPeriodError [Txt ''end date has to be in the future''])
          else (case startDate' of
                  None \<Rightarrow> Inl TypeError
                | Some s \<Rightarrow>
                    if getTime e < getTime s
                    then Inl (InvalidClosingPeriodError
                               [Txt ''end date has to be greater than start date''])
                    else Inr ()))"

text \<open>\<^verbatim>\<open>ClosingPeriod.factory.create\<close>; the constructor leaves \<^verbatim>\<open>id\<close> undefined.\<close>

definition createClosingPeriod ::
  "Clock \<Rightarrow> NewClosingPeriodCommand \<Rightarrow> error + ClosingPeriodInterface"
where
  "createClosingPeriod clock command =
     andThen (assertStartDateIsValid clock (startDate_cmd command)) (\<lambda>_.
     andThen (assertEndDateIsValid clock (startDate_cmd command) (endDate_cmd command)) (\<lambda>_.
       (case (startDate_cmd command, endDate_cmd command) of
          (Some s, Some e) \<Rightarrow> Inr \<lparr>closingPeriod_id = None, startDate = s, endDate = e\<rparr>
        | _ \<Rightarrow> Inl TypeError)))"

section \<open>The date fields of an order\<close>

text \<open>
  Exactly the date field of the type of the order is populated, with the delivery address
  for a delivery; the other date fields and, for another type, the delivery address are null.
\<close>

definition dateFieldsMatchType :: "Order \<Rightarrow> bool" where
  "dateFieldsMatchType order \<longleftrightarrow>
     (orderType order = PICK_UP \<and> pickUpDate order \<noteq> None \<and> deliveryDate order = None \<and>
      deliveryAddress order = None \<and> reservationDate order = None) \<or>
     (orderType order = DELIVERY \<and> deliveryDate order \<noteq> None \<and>
      deliveryAddress order \<noteq> None \<and> deliveryAddress order \<noteq> Some [] \<and>
      pickUpDate order = None \<and> reservationDate order = None) \<or>
     (orderType order = RESERVATION \<and> reservationDate order \<noteq> None \<and>
      pickUpDate order = None \<and> deliveryDate order = None \<and> deliveryAddress order = None)"

section \<open>Example data\<close>

text \<open>
  The clock of \<^verbatim>\<open>order.spec.ts\<close>: the test suite replaces the \<^verbatim>\<open>Date\<close> constructor, so
  both clock readings are the same date.
\<close>

definition clockAt :: "Date \<Rightarrow> Clock" where
  "clockAt d = \<lparr>easternNow = d, systemNow = d\<rparr>"

text \<open>A date from its day number and its time of day.\<close>

definition dateOf :: "int \<Rightarrow> int \<Rightarrow> int \<Rightarrow> int \<Rightarrow> Date" where
  "dateOf dayNo h m s = MkDate (dayNo * MS_PER_DAY + h * 3600000 + m * 60000 + s * 1000)"

text \<open>
  The dates of \<^verbatim>\<open>order.spec.ts\<close>: Monday 1 April 2030 is day 22005, Tuesday 9 June 2020
  is day 18422.
\<close>

definition aMondayInTheFutureBeforeSevenPM :: Date where
  "aMondayInTheFutureBeforeSevenPM = dateOf 22005 18 59 59"
definition aTuesdayInTheFutureBeforeSevenPM :: Date where
  "aTuesdayInTheFutureBeforeSevenPM = dateOf 22006 18 59 59"
definition aTuesdayInTheFutureAtSevenPM :: Date where
  "aTuesdayInTheFutureAtSevenPM = dateOf 22006 19 0 0"
definition aThursdayInTheFutureBeforeSevenPM :: Date where
  "aThursdayInTheFutureBeforeSevenPM = dateOf 22008 18 59 59"
definition aFridayInTheFutureBeforeSevenPM :: Date where
  "aFridayInTheFutureBeforeSevenPM = dateOf 22009 18 59 59"
definition aSaturdayInTheFutureBeforeSevenPM :: Date where
  "aSaturdayInTheFutureBeforeSevenPM = dateOf 22010 18 59 59"
definition aTuesdayInTheFutureTheWeekAfter :: Date where
  "aTuesdayInTheFutureTheWeekAfter = dateOf 22013 18 59 59"

definition tuesdayBeforeSevenPM :: Date where
  "tuesdayBeforeSevenPM = dateOf 18422 18 59 59"
definition tuesdayAtSevenPM :: Date where
  "tuesdayAtSevenPM = dateOf 18422 19 0 0"
definition firstThursdayAfterTuesday :: Date where
  "firstThursdayAfterTuesday = dateOf 18424 19 0 0"
definition secondThursdayAfterTuesday :: Date where
  "secondThursdayAfterTuesday = dateOf 18431 19 0 0"

text \<open>
  Modelled from the spec: the table of \<^verbatim>\<open>order-pick-up-constraints.ts\<close> is not among the
  sources. These are the rows of the reference table of the spec. The theorems hold for
  every table; the examples use this one.
\<close>

definition referenceTable :: "AvailableDayForAPickUpOrder list" where
  "referenceTable =
     [\<lparr>whenOrderIsPlacedOn = TUESDAY, firstAvailableDay = SATURDAY\<rparr>,
      \<lparr>whenOrderIsPlacedOn = WEDNESDAY, firstAvailableDay = SATURDAY\<rparr>,
      \<lparr>whenOrderIsPlacedOn = THURSDAY, firstAvailableDay = TUESDAY\<rparr>,
      \<lparr>whenOrderIsPlacedOn = FRIDAY, firstAvailableDay = TUESDAY\<rparr>,
      \<lparr>whenOrderIsPlacedOn = SATURDAY, firstAvailableDay = TUESDAY\<rparr>]"

text \<open>
  The rows that the expectations of \<^verbatim>\<open>order.spec.ts\<close> determine: for each day of
  placement, the first day on which a pick-up is not rejected.
\<close>

definition testedTable :: "AvailableDayForAPickUpOrder list" where
  "testedTable =
     [\<lparr>whenOrderIsPlacedOn = SUNDAY, firstAvailableDay = TUESDAY\<rparr>,
      \<lparr>whenOrderIsPlacedOn = MONDAY, firstAvailableDay = THURSDAY\<rparr>,
      \<lparr>whenOrderIsPlacedOn = TUESDAY, firstAvailableDay = THURSDAY\<rparr>,
      \<lparr>whenOrderIsPlacedOn = WEDNESDAY, firstAvailableDay = SATURDAY\<rparr>,
      \<lparr>whenOrderIsPlacedOn = THURSDAY, firstAvailableDay = TUESDAY\<rparr>,
      \<lparr>whenOrderIsPlacedOn = FRIDAY, firstAvailableDay = TUESDAY\<rparr>,
      \<lparr>whenOrderIsPlacedOn = SATURDAY, firstAvailableDay = TUESDAY\<rparr>]"

definition fakeProduct :: ProductInterface where
  "fakeProduct = \<lparr>product_id = 42, name = ''fake product'', description = [], price = 0,
                   status = []\<rparr>"

definition newOrderCommand :: NewOrderCommand where
  "newOrderCommand =
     \<lparr>products_cmd = [\<lparr>productId = 42, quantity_cmd = 1\<rparr>],
      type_cmd = DELIVERY,
      pickUpDate_cmd = Some aTuesdayInTheFutureBeforeSevenPM,
      deliveryDate_cmd = Some secondThursdayAfterTuesday,
      deliveryAddress_cmd = Some ''Montreal'',
      reservationDate_cmd = None,
      note_cmd = Some ''a note'',
      clientName_cmd = ''John Doe'',
      clientPhoneNumber_cmd = ''514-123-4567'',
      clientEmailAddress_cmd = ''test@example.org''\<rparr>"

text \<open>The pick-up command of the tests, its resolved products and the order it creates.\<close>

definition pickUpCommand :: "Date \<Rightarrow> NewOrderCommand" where
  "pickUpCommand d = newOrderCommand\<lparr>type_cmd := PICK_UP, pickUpDate_cmd := Some d\<rparr>"

definition johnDoeOrder :: Order where
  "johnDoeOrder =
     \<lparr>order_id = None, clientName = ''John Doe'', clientPhoneNumber = ''514-123-4567'',
      clientEmailAddress = ''test@example.org'',
      products = [\<lparr>product = fakeProduct, quantity = 1\<rparr>],
      orderType = [], pickUpDate = None, deliveryDate = None, deliveryAddress = None,
      reservationDate = None, note_order = Some ''a note''\<rparr>"

definition pickUpOrder :: "Date \<Rightarrow> Order" where
  "pickUpOrder d = johnDoeOrder\<lparr>orderType := PICK_UP, pickUpDate := Some d\<rparr>"

definition deliveryCommand :: "Date \<Rightarrow> NewOrderCommand" where
  "deliveryCommand d = newOrderCommand\<lparr>deliveryDate_cmd := Some d\<rparr>"

definition deliveryOrder :: "Date \<Rightarrow> Order" where
  "deliveryOrder d =
     johnDoeOrder\<lparr>orderType := DELIVERY, deliveryDate := Some d,
                  deliveryAddress := Some ''Montreal''\<rparr>"

text \<open>
  The order and the command of the tests of \<^verbatim>\<open>updateWith\<close>, and their clock:
  3 June 2020 is day 18416, 13 June 2020 day 18426, 9 January 2020 day 18270,
  10 January 2030 day 21924 and 12 June 2030 day 22077. Prices are in cents.
\<close>

definition now :: Date where
  "now = dateOf 18416 4 41 20"

definition existingOrder :: Order where
  "existingOrder =
     \<lparr>order_id = Some 42, clientName = ''John Doe'', clientPhoneNumber = ''+1 514 111 1111'',
      clientEmailAddress = ''test@example.org'',
      products =
        [\<lparr>product = \<lparr>product_id = 9998, name = ''product 9998'', description = [],
                      price = 9998, status = []\<rparr>, quantity = 98\<rparr>,
         \<lparr>product = \<lparr>product_id = 9999, name = ''product 9999'', description = [],
                      price = 9999, status = []\<rparr>, quantity = 99\<rparr>],
      orderType = PICK_UP, pickUpDate = Some (dateOf 18426 4 41 20),
      deliveryDate = Some (dateOf 18270 12 0 0), deliveryAddress = Some ''Montreal'',
      reservationDate = None, note_order = Some ''a note''\<rparr>"

definition updateOrderCommand :: UpdateOrderCommand where
  "updateOrderCommand =
     \<lparr>products_cmd = [\<lparr>productId = 42, quantity_cmd = 1\<rparr>],
      type_cmd = DELIVERY,
      pickUpDate_cmd = Some (dateOf 22077 4 41 20),
      deliveryDate_cmd = Some (dateOf 21924 12 0 0),
      deliveryAddress_cmd = Some ''Laval'',
      reservationDate_cmd = None,
      note_cmd = Some ''an updated note'',
      orderId = 42\<rparr>"

definition updatedOrder :: Order where
  "updatedOrder =
     existingOrder\<lparr>products := [\<lparr>product = fakeProduct, quantity = 1\<rparr>],
                   orderType := DELIVERY, pickUpDate := None,
                   deliveryDate := Some (dateOf 21924 12 0 0),
                   deliveryAddress := Some ''Laval'', reservationDate := None,
                   note_order := Some ''an updated note''\<rparr>"

text \<open>The reservation command of the tests and the order it creates.\<close>

definition reservationCommand :: "Date \<Rightarrow> NewOrderCommand" where
  "reservationCommand d =
     newOrderCommand\<lparr>type_cmd := RESERVATION, reservationDate_cmd := Some d\<rparr>"

definition reservationOrder :: "Date \<Rightarrow> Order" where
  "reservationOrder d = johnDoeOrder\<lparr>orderType := RESERVATION, reservationDate := Some d\<rparr>"

section \<open>Calendar arithmetic\<close>

lemmas date_defs = dayNumber_def msOfDay_def getDay_def getHours_def MS_PER_DAY_def dateOf_def
  setDateToNextDay_def getNumberOfDaysBetweenFirstDateAndSecondDate_def
  isFirstDateBeforeSecondDateIgnoringHours_def NUMBER_OF_DAYS_IN_A_WEEK_def effectiveNow_def
  MAXIMUM_HOUR_TO_PLACE_A_PICK_UP_ORDER_BEFORE_BEING_CONSIDERED_AS_PLACED_THE_FOLLOWING_DAY_def
  clockAt_def

lemmas day_defs = SUNDAY_def MONDAY_def TUESDAY_def WEDNESDAY_def THURSDAY_def FRIDAY_def
  SATURDAY_def

lemmas example_dates = aMondayInTheFutureBeforeSevenPM_def aTuesdayInTheFutureBeforeSevenPM_def
  aTuesdayInTheFutureAtSevenPM_def aThursdayInTheFutureBeforeSevenPM_def
  aFridayInTheFutureBeforeSevenPM_def aSaturdayInTheFutureBeforeSevenPM_def
  aTuesdayInTheFutureTheWeekAfter_def tuesdayBeforeSevenPM_def tuesdayAtSevenPM_def
  firstThursdayAfterTuesday_def secondThursdayAfterTuesday_def

lemma dayNumber_next: "dayNumber (setDateToNextDay d) = dayNumber d + 1"
  by (simp add: dayNumber_def setDateToNextDay_def MS_PER_DAY_def)

lemma getDay_range: "0 \<le> getDay d \<and> getDay d < 7"
  by (simp add: getDay_def)

lemma getDay_next: "getDay (setDateToNextDay d) = (getDay d + 1) mod 7"
  by (simp add: getDay_def dayNumber_next mod_simps add.commute add.left_commute)

lemma dayNumber_funpow: "dayNumber ((setDateToNextDay ^^ n) d) = dayNumber d + int n"
  by (induction n) (simp_all add: dayNumber_next)

lemma getDay_funpow: "getDay ((setDateToNextDay ^^ n) d) = (getDay d + int n) mod 7"
  by (simp add: getDay_def dayNumber_funpow mod_simps add.commute add.left_commute)

lemma weekday_cases: "0 \<le> k \<Longrightarrow> k < 7 \<Longrightarrow> (k::int) \<in> {0, 1, 2, 3, 4, 5, 6}"
  by auto

lemma weekday_reached:
  assumes "0 \<le> k" "k < 7" "0 \<le> g" "g < 7" "(k - g - 1) mod 7 = 0"
  shows "(g + 1) mod 7 = (k::int)"
  using weekday_cases [OF assms(1,2)] weekday_cases [OF assms(3,4)] assms(5) by auto

lemma weekday_not_reached:
  assumes "0 \<le> k" "k < 7" "0 \<le> g" "g < 7" "(k - g - 1) mod 7 = m + 1" "0 \<le> m"
  shows "(g + 1) mod 7 \<noteq> (k::int) \<and> (k - (g + 1) mod 7 - 1) mod 7 = m"
  using weekday_cases [OF assms(1,2)] weekday_cases [OF assms(3,4)] assms(5,6) by auto

lemma weekday_offset:
  assumes "0 \<le> k" "k < 7" "0 \<le> g" "g < 7"
  shows "(g + (1 + (k - g - 1) mod 7)) mod 7 = (k::int)"
  using weekday_cases [OF assms(1,2)] weekday_cases [OF assms(3,4)] by auto

lemma weekday_first:
  assumes "0 \<le> k" "k < 7" "0 \<le> g" "g < 7" "1 \<le> m" "m < 1 + (k - g - 1) mod 7"
  shows "(g + m) mod 7 \<noteq> (k::int)"
proof
  assume eq: "(g + m) mod 7 = k"
  have "m < 8" using assms(6) pos_mod_bound [of 7 "k - g - 1"] by linarith
  then have "m \<in> {1, 2, 3, 4, 5, 6, 7}" using assms(5) by auto
  then show False
    using weekday_cases [OF assms(1,2)] weekday_cases [OF assms(3,4)] assms(6) eq by auto
qed

section \<open>The loop of getNextDateHavingDay\<close>

lemma loop_runs:
  "0 \<le> k \<Longrightarrow> k < 7 \<Longrightarrow> (k - getDay d - 1) mod 7 = int n \<Longrightarrow>
   getNextDateHavingDay_loop (Some k) d = Some ((setDateToNextDay ^^ Suc n) d)"
proof (induction n arbitrary: d)
  case 0
  have "getDay (setDateToNextDay d) = k"
    unfolding getDay_next using weekday_reached [of k "getDay d"] 0 getDay_range [of d] by simp
  then show ?case
    by (subst getNextDateHavingDay_loop.simps) simp
next
  case (Suc n)
  have "(k - getDay d - 1) mod 7 = int n + 1" using Suc.prems(3) by simp
  from weekday_not_reached [OF Suc.prems(1,2) _ _ this] getDay_range [of d]
  have ne: "getDay (setDateToNextDay d) \<noteq> k"
    and step: "(k - getDay (setDateToNextDay d) - 1) mod 7 = int n"
    unfolding getDay_next by simp_all
  have "getNextDateHavingDay_loop (Some k) d = getNextDateHavingDay_loop (Some k) (setDateToNextDay d)"
    using ne by (subst getNextDateHavingDay_loop.simps) simp
  also have "\<dots> = Some ((setDateToNextDay ^^ Suc n) (setDateToNextDay d))"
    using Suc.IH [OF Suc.prems(1,2) step] .
  also have "(setDateToNextDay ^^ Suc n) (setDateToNextDay d) = (setDateToNextDay ^^ Suc (Suc n)) d"
    by (simp only: funpow_Suc_right o_apply)
  finally show ?case .
qed

lemma loop_result:
  assumes "0 \<le> k" "k < 7"
  shows "getNextDateHavingDay_loop (Some k) d =
         Some ((setDateToNextDay ^^ Suc (nat ((k - getDay d - 1) mod 7))) d)"
proof -
  have "(k - getDay d - 1) mod 7 = int (nat ((k - getDay d - 1) mod 7))" by simp
  from loop_runs [OF assms this] show ?thesis .
qed

lemma loop_returns_only_weekdays:
  assumes "getNextDateHavingDay_loop day d = Some r"
  shows "\<exists>k. day = Some k \<and> 0 \<le> k \<and> k < 7"
proof (rule getNextDateHavingDay_loop.raw_induct
    [where P = "\<lambda>day d r. \<exists>k. day = Some k \<and> 0 \<le> k \<and> k < 7", OF _ assms])
  fix f day d r
  assume IH: "\<And>day d r. f day d = Some r \<Longrightarrow> \<exists>k. day = Some k \<and> 0 \<le> k \<and> k < 7"
    and body: "(if Some (getDay (setDateToNextDay d)) \<noteq> day
                then f day (setDateToNextDay d) else Some (setDateToNextDay d)) = Some r"
  show "\<exists>k. day = Some k \<and> 0 \<le> k \<and> k < 7"
  proof (cases "Some (getDay (setDateToNextDay d)) = day")
    case True
    then show ?thesis using getDay_range [of "setDateToNextDay d"] by auto
  next
    case False
    then show ?thesis using IH body by simp
  qed
qed

lemma loop_undefined: "getNextDateHavingDay_loop None d = None"
proof (cases "getNextDateHavingDay_loop None d")
  case None
  then show ?thesis .
next
  case (Some r)
  from loop_returns_only_weekdays [OF this] show ?thesis by simp
qed

lemma getNextDateHavingDay_result:
  assumes "0 \<le> k" "k < 7"
  shows "\<exists>r. getNextDateHavingDay clock (Some k) = Some r \<and>
             dayNumber r = nextOccurrenceOfDay (systemNow clock) k \<and> getDay r = k"
proof -
  let ?n = "Suc (nat ((k - getDay (systemNow clock) - 1) mod 7))"
  let ?r = "(setDateToNextDay ^^ ?n) (systemNow clock)"
  have "getNextDateHavingDay clock (Some k) = Some ?r"
    unfolding getNextDateHavingDay_def by (rule loop_result [OF assms])
  moreover have "dayNumber ?r = nextOccurrenceOfDay (systemNow clock) k"
    unfolding dayNumber_funpow nextOccurrenceOfDay_def by simp
  moreover have "getDay ?r = k"
    unfolding getDay_funpow
    using weekday_offset [OF assms, of "getDay (systemNow clock)"] getDay_range [of "systemNow clock"]
    by simp
  ultimately show ?thesis by blast
qed

section \<open>The lead-time rule of pick-up orders\<close>

lemma stage_same_day:
  assumes "getNumberOfDaysBetweenFirstDateAndSecondDate (effectiveNow clock) d < NUMBER_OF_DAYS_IN_A_WEEK"
      and "getDay (effectiveNow clock) = getDay d"
  shows "assertPickUpDateIsEqualOrAfterTheFirstAvailableDay clock table PICK_UP (Some d) =
         Some (Inl (cannotBeSameDayAsNow d))"
  using assms by (simp add: assertPickUpDateIsEqualOrAfterTheFirstAvailableDay_def Let_def)

lemma stage_after_same_day:
  assumes "\<not> (getNumberOfDaysBetweenFirstDateAndSecondDate (effectiveNow clock) d < NUMBER_OF_DAYS_IN_A_WEEK
             \<and> getDay (effectiveNow clock) = getDay d)"
  shows "assertPickUpDateIsEqualOrAfterTheFirstAvailableDay clock table PICK_UP (Some d) =
         (case getNextDateHavingDay clock
                 (lookupFirstAvailableDay table (getDay (effectiveNow clock))) of
            None \<Rightarrow> None
          | Some firstAvailableDate \<Rightarrow>
              if isFirstDateBeforeSecondDateIgnoringHours d firstAvailableDate
              then Some (Inl (hasToBeAtLeastDaysAfterNow d
                     (getNumberOfDaysBetweenFirstDateAndSecondDate
                        (effectiveNow clock) firstAvailableDate)))
              else Some (Inr ()))"
  using assms by (auto simp add: assertPickUpDateIsEqualOrAfterTheFirstAvailableDay_def Let_def)

section \<open>Sequencing and the binding functions\<close>

lemma andThen_Inl [simp]: "andThen (Inl e) f = Inl e"
  by (simp add: andThen_def)

lemma andThen_Inr [simp]: "andThen (Inr x) f = f x"
  by (simp add: andThen_def)

lemma andThen_eq_Inr:
  "andThen r f = Inr y \<longleftrightarrow> (\<exists>x. r = Inr x \<and> f x = Inr y)"
  by (cases r) simp_all

lemma assertTypeIsValid_isAdmin:
  "type \<noteq> RESERVATION \<Longrightarrow> assertTypeIsValid type a = assertTypeIsValid type b"
  by (simp add: assertTypeIsValid_def)

lemma bindOrderTypeSelection_isAdmin:
  "type_cmd command \<noteq> RESERVATION \<Longrightarrow>
   bindOrderTypeSelection clock this command closingPeriods a =
   bindOrderTypeSelection clock this command closingPeriods b"
  using assertTypeIsValid_isAdmin [of "type_cmd command" a b]
  by (simp add: bindOrderTypeSelection_def)

lemma create_not_admin:
  assumes "type_cmd command \<noteq> RESERVATION"
      and "create clock table command activeProducts closingPeriods True = Some (Inr order)"
  shows "create clock table command activeProducts closingPeriods False =
     (case assertPickUpDateIsEqualOrAfterTheFirstAvailableDay clock table
             (type_cmd command) (pickUpDate_cmd command) of
        None \<Rightarrow> None
      | Some (Inl e) \<Rightarrow> Some (Inl e)
      | Some (Inr u) \<Rightarrow>
         (case assertDeliveryDateIsEqualOrAfterTheFirstAvailableDay clock
                 (type_cmd command) (deliveryDate_cmd command) of
            Inl e \<Rightarrow> Some (Inl e)
          | Inr v \<Rightarrow> Some (Inr order)))"
proof -
  have same: "bindOrderTypeSelection clock this command closingPeriods False =
              bindOrderTypeSelection clock this command closingPeriods True" for this
    by (rule bindOrderTypeSelection_isAdmin [OF assms(1)])
  show ?thesis
    using assms(2) unfolding create_def same
    by (simp split: sum.splits)
qed

lemma delivery_rule_skipped:
  "type \<noteq> DELIVERY \<Longrightarrow>
   assertDeliveryDateIsEqualOrAfterTheFirstAvailableDay clock type deliveryDate' = Inr ()"
  by (simp add: assertDeliveryDateIsEqualOrAfterTheFirstAvailableDay_def)

lemma pick_up_rule_skipped:
  "type \<noteq> PICK_UP \<Longrightarrow>
   assertPickUpDateIsEqualOrAfterTheFirstAvailableDay clock table type pickUpDate' = Some (Inr ())"
  by (simp add: assertPickUpDateIsEqualOrAfterTheFirstAvailableDay_def)

text \<open>A lead-time rule that throws makes the creation fail, whatever came before.\<close>

lemma create_fails_with_pick_up_rule:
  "assertPickUpDateIsEqualOrAfterTheFirstAvailableDay clock table (type_cmd command)
     (pickUpDate_cmd command) = Some (Inl e) \<Longrightarrow>
   \<exists>e'. create clock table command activeProducts closingPeriods False = Some (Inl e')"
  by (simp add: create_def split: sum.splits)

lemma create_fails_with_delivery_rule:
  "type_cmd command \<noteq> PICK_UP \<Longrightarrow>
   assertDeliveryDateIsEqualOrAfterTheFirstAvailableDay clock (type_cmd command)
     (deliveryDate_cmd command) = Inl e \<Longrightarrow>
   \<exists>e'. create clock table command activeProducts closingPeriods False = Some (Inl e')"
  by (simp add: create_def pick_up_rule_skipped split: sum.splits)

lemma PICK_UP_neq [simp]: "PICK_UP \<noteq> DELIVERY" "PICK_UP \<noteq> RESERVATION" "DELIVERY \<noteq> RESERVATION"
  "DELIVERY \<noteq> PICK_UP" "RESERVATION \<noteq> PICK_UP" "RESERVATION \<noteq> DELIVERY"
  by (simp_all add: PICK_UP_def DELIVERY_def RESERVATION_def)

lemma effectiveNow_day:
  "getDay (effectiveNow clock) =
     (if getHours (easternNow clock) \<ge> 19 then (getDay (easternNow clock) + 1) mod 7
      else getDay (easternNow clock))"
  by (simp add: effectiveNow_def getDay_next
      MAXIMUM_HOUR_TO_PLACE_A_PICK_UP_ORDER_BEFORE_BEING_CONSIDERED_AS_PLACED_THE_FOLLOWING_DAY_def)

lemma stage_with_row:
  assumes "lookupFirstAvailableDay table (getDay (effectiveNow clock)) = Some day"
      and "0 \<le> day" and "day < 7"
      and "\<not> (getNumberOfDaysBetweenFirstDateAndSecondDate (effectiveNow clock) d
                 < NUMBER_OF_DAYS_IN_A_WEEK \<and>
               getDay (effectiveNow clock) = getDay d)"
  shows "assertPickUpDateIsEqualOrAfterTheFirstAvailableDay clock table PICK_UP (Some d) =
         Some (if dayNumber d < nextOccurrenceOfDay (systemNow clock) day
               then Inl (hasToBeAtLeastDaysAfterNow d
                      (nextOccurrenceOfDay (systemNow clock) day - dayNumber (effectiveNow clock)))
               else Inr ())"
proof -
  from getNextDateHavingDay_result [OF assms(2,3), of clock]
  obtain r where r: "getNextDateHavingDay clock (Some day) = Some r"
    "dayNumber r = nextOccurrenceOfDay (systemNow clock) day" by blast
  show ?thesis
    unfolding stage_after_same_day [OF assms(4)] assms(1) r(1)
    by (simp add: isFirstDateBeforeSecondDateIgnoringHours_def r(2)
        getNumberOfDaysBetweenFirstDateAndSecondDate_def)
qed

section \<open>Evaluation of the examples\<close>

lemma email_of_the_tests: "test EMAIL_REGEX ''test@example.org''"
  by code_simp

lemmas example_commands = newOrderCommand_def pickUpCommand_def deliveryCommand_def
  johnDoeOrder_def pickUpOrder_def deliveryOrder_def fakeProduct_def newObject_def

lemmas assert_defs = assertClientNameIsValid_def assertClientPhoneNumberIsValid_def
  assertClientEmailAddressIsValid_def assertTypeIsValid_def assertProductsAreValid_def
  assertPickUpDateIsValid_def assertDeliveryAddressIsValid_def assertDeliveryDateIsValid_def
  assertReservationDateIsValid_def isEmpty_def isEmptyOpt_def OrderType_keys_def
  toProductWithQuantity_def isInClosingPeriod_def CLOSING_DAYS_def DELIVERY_DAY_def

lemma create_pickUpCommand_as_admin:
  assumes "\<not> dayNumber d < dayNumber (easternNow clock)" "getDay d \<noteq> 0" "getDay d \<noteq> 1"
  shows "create clock table (pickUpCommand d) [fakeProduct] [] True = Some (Inr (pickUpOrder d))"
  using assms
  by (simp add: create_def bindContactDetails_def bindProductSelection_def
      bindOrderTypeSelection_def assert_defs example_commands email_of_the_tests
      isFirstDateBeforeSecondDateIgnoringHours_def day_defs Let_def
      PICK_UP_def DELIVERY_def RESERVATION_def del: test.simps)

lemma create_deliveryCommand_as_admin:
  assumes "\<not> dayNumber d < dayNumber (easternNow clock)" "getDay d = 4"
  shows "create clock table (deliveryCommand d) [fakeProduct] [] True = Some (Inr (deliveryOrder d))"
  using assms
  by (simp add: create_def bindContactDetails_def bindProductSelection_def
      bindOrderTypeSelection_def assert_defs example_commands email_of_the_tests
      isFirstDateBeforeSecondDateIgnoringHours_def day_defs Let_def
      PICK_UP_def DELIVERY_def RESERVATION_def del: test.simps)

lemma lead_time_errors_differ:
  "hasToBeAtLeastDaysAfterNow d n \<noteq> cannotBeSameDayAsNow d'"
  "hasToBeOneOfTheNextAvailableThursday d \<noteq> cannotBeSameDayAsNow d'"
  by (simp_all add: hasToBeAtLeastDaysAfterNow_def cannotBeSameDayAsNow_def
      hasToBeOneOfTheNextAvailableThursday_def)

lemma stage_not_same_day_error:
  assumes "\<not> (getNumberOfDaysBetweenFirstDateAndSecondDate (effectiveNow clock) d
                 < NUMBER_OF_DAYS_IN_A_WEEK \<and>
               getDay (effectiveNow clock) = getDay d)"
  shows "assertPickUpDateIsEqualOrAfterTheFirstAvailableDay clock table PICK_UP (Some d) \<noteq>
         Some (Inl (cannotBeSameDayAsNow d))"
  unfolding stage_after_same_day [OF assms]
  by (simp add: lead_time_errors_differ split: option.splits)

section \<open>Resolution of the products\<close>

lemma find_Some_set: "find P xs = Some x \<Longrightarrow> x \<in> set xs \<and> P x"
  by (induction xs) (auto split: if_splits)

lemma toProductWithQuantity_Inr:
  "(\<exists>x. toProductWithQuantity p activeProducts = Inr x) \<longleftrightarrow>
   (\<exists>a \<in> set activeProducts. product_id a = productId p)"
  by (auto simp add: toProductWithQuantity_def find_None_iff split: option.splits
      dest: find_Some_set)

lemma toProductWithQuantity_Inl:
  "\<not> (\<exists>a \<in> set activeProducts. product_id a = productId p) \<Longrightarrow>
   toProductWithQuantity p activeProducts =
     Inl (InvalidOrderError [Txt ''product with id '', Num (productId p), Txt '' not found''])"
  by (auto simp add: toProductWithQuantity_def find_None_iff split: option.splits)

lemma toProductWithQuantity_fields:
  "toProductWithQuantity p activeProducts = Inr x \<Longrightarrow>
   product x \<in> set activeProducts \<and> product_id (product x) = productId p \<and>
   quantity x = quantity_cmd p"
  by (auto simp add: toProductWithQuantity_def split: option.splits dest: find_Some_set)

lemma mapToProductWithQuantity_Inr:
  "(\<exists>xs. mapToProductWithQuantity ps activeProducts = Inr xs) \<longleftrightarrow>
   (\<forall>p \<in> set ps. \<exists>a \<in> set activeProducts. product_id a = productId p)"
proof (induction ps)
  case Nil
  show ?case by simp
next
  case (Cons p ps)
  show ?case
  proof (cases "toProductWithQuantity p activeProducts")
    case (Inl e)
    then have "\<not> (\<exists>a \<in> set activeProducts. product_id a = productId p)"
      using toProductWithQuantity_Inr [of p activeProducts] by simp
    then show ?thesis using Inl by simp
  next
    case (Inr x)
    then have "\<exists>a \<in> set activeProducts. product_id a = productId p"
      using toProductWithQuantity_Inr [of p activeProducts] by blast
    then show ?thesis using Inr Cons.IH by (auto split: sum.splits)
  qed
qed

lemma mapToProductWithQuantity_first_unresolved:
  "find (\<lambda>p. \<not> (\<exists>a \<in> set activeProducts. product_id a = productId p)) ps = Some p \<Longrightarrow>
   mapToProductWithQuantity ps activeProducts =
     Inl (InvalidOrderError [Txt ''product with id '', Num (productId p), Txt '' not found''])"
proof (induction ps)
  case Nil
  then show ?case by simp
next
  case (Cons q ps)
  show ?case
  proof (cases "\<exists>a \<in> set activeProducts. product_id a = productId q")
    case True
    then obtain x where x: "toProductWithQuantity q activeProducts = Inr x"
      using toProductWithQuantity_Inr [of q activeProducts] by blast
    from True Cons.prems have "find (\<lambda>p. \<not> (\<exists>a \<in> set activeProducts. product_id a = productId p)) ps = Some p"
      by (auto split: if_splits)
    from Cons.IH [OF this] x show ?thesis by simp
  next
    case False
    with Cons.prems have "q = p" by simp
    with False show ?thesis by (simp add: toProductWithQuantity_Inl)
  qed
qed

lemma mapToProductWithQuantity_fields:
  "mapToProductWithQuantity ps activeProducts = Inr xs \<Longrightarrow>
   map (\<lambda>x. (product_id (product x), quantity x)) xs =
   map (\<lambda>p. (productId p, quantity_cmd p)) ps \<and> product ` set xs \<subseteq> set activeProducts"
proof (induction ps arbitrary: xs)
  case Nil
  then show ?case by simp
next
  case (Cons p ps)
  from Cons.prems obtain y ys where y: "toProductWithQuantity p activeProducts = Inr y"
    and ys: "mapToProductWithQuantity ps activeProducts = Inr ys" and xs: "xs = y # ys"
    by (auto split: sum.splits)
  from Cons.IH [OF ys] toProductWithQuantity_fields [OF y] xs show ?case by simp
qed

lemma assertProductsAreValid_Inr:
  "assertProductsAreValid ps = Inr () \<longleftrightarrow> ps \<noteq> [] \<and> (\<forall>p \<in> set ps. 1 \<le> quantity_cmd p)"
proof (cases "find (\<lambda>p. quantity_cmd p < 1) ps")
  case None
  then have "\<forall>p \<in> set ps. 1 \<le> quantity_cmd p"
    by (auto simp add: find_None_iff not_less)
  then show ?thesis using None by (simp add: assertProductsAreValid_def)
next
  case (Some q)
  from find_Some_set [OF this] have "\<not> (\<forall>p \<in> set ps. 1 \<le> quantity_cmd p)"
    by (auto intro!: bexI [of _ q])
  then show ?thesis using Some by (simp add: assertProductsAreValid_def)
qed

lemma bindProductSelection_valid:
  "assertProductsAreValid (products_cmd command) = Inr () \<Longrightarrow>
   bindProductSelection this command activeProducts =
     andThen (mapToProductWithQuantity (products_cmd command) activeProducts)
       (\<lambda>resolved. Inr (this\<lparr>products := resolved\<rparr>))"
  by (simp add: bindProductSelection_def)

section \<open>The comparison of closing periods with today\<close>

lemma time_of_day:
  "getHours d * 3600000 + getMinutes d * 60000 + getSeconds d * 1000 + getMilliseconds d
   = msOfDay d"
proof -
  define x where "x = msOfDay d"
  have "x div 3600000 * 3600000 + x mod 3600000 div 60000 * 60000
        + x mod 60000 div 1000 * 1000 + x mod 1000 = x"
  proof -
    have a: "x mod 60000 = x mod 60000 div 1000 * 1000 + x mod 60000 mod 1000" by simp
    have b: "x mod 60000 mod 1000 = x mod 1000" by (simp add: mod_mod_cancel)
    have c: "x mod 3600000 = x mod 3600000 div 60000 * 60000 + x mod 3600000 mod 60000" by simp
    have d: "x mod 3600000 mod 60000 = x mod 60000" by (simp add: mod_mod_cancel)
    have e: "x = x div 3600000 * 3600000 + x mod 3600000" by simp
    show ?thesis using a b c d e by linarith
  qed
  then show ?thesis
    by (simp add: getHours_def getMinutes_def getSeconds_def getMilliseconds_def x_def)
qed

lemma isBeforeNowIgnoringHours_iff:
  "isBeforeNowIgnoringHours clock date \<longleftrightarrow> dayNumber date < dayNumber (systemNow clock)"
proof -
  have now: "getTime (setHours (systemNow clock) (getHours date) (getMinutes date)
                  (getSeconds date) (getMilliseconds date))
        = dayNumber (systemNow clock) * MS_PER_DAY + msOfDay date"
    using time_of_day [of date] by (simp add: setHours_def)
  have date: "getTime date = dayNumber date * MS_PER_DAY + msOfDay date"
    by (simp add: dayNumber_def msOfDay_def)
  have "isBeforeNowIgnoringHours clock date \<longleftrightarrow>
        dayNumber date * MS_PER_DAY < dayNumber (systemNow clock) * MS_PER_DAY"
    unfolding isBeforeNowIgnoringHours_def Let_def now by (subst date) simp
  then show ?thesis by (simp add: MS_PER_DAY_def)
qed

lemma assertStartDateIsValid_Some:
  "assertStartDateIsValid clock (Some s) =
     (if dayNumber s < dayNumber (systemNow clock)
      then Inl (InvalidClosingPeriodError [Txt ''start date has to be in the future''])
      else Inr ())"
  by (simp add: assertStartDateIsValid_def isBeforeNowIgnoringHours_iff)

lemma assertEndDateIsValid_Some:
  "assertEndDateIsValid clock (Some s) (Some e) =
     (if dayNumber e < dayNumber (systemNow clock)
      then Inl (InvalidClosingPeriodError [Txt ''end date has to be in the future''])
      else if getTime e < getTime s
      then Inl (InvalidClosingPeriodError [Txt ''end date has to be greater than start date''])
      else Inr ())"
  by (simp add: assertEndDateIsValid_def isBeforeNowIgnoringHours_iff)

lemma createClosingPeriod_Some:
  "startDate_cmd command = Some s \<Longrightarrow> endDate_cmd command = Some e \<Longrightarrow>
   createClosingPeriod clock command =
     (if dayNumber s < dayNumber (systemNow clock)
      then Inl (InvalidClosingPeriodError [Txt ''start date has to be in the future''])
      else if dayNumber e < dayNumber (systemNow clock)
      then Inl (InvalidClosingPeriodError [Txt ''end date has to be in the future''])
      else if getTime e < getTime s
      then Inl (InvalidClosingPeriodError [Txt ''end date has to be greater than start date''])
      else Inr \<lparr>closingPeriod_id = None, startDate = s, endDate = e\<rparr>)"
  by (simp add: createClosingPeriod_def assertStartDateIsValid_Some assertEndDateIsValid_Some)

lemma createClosingPeriod_absent:
  "startDate_cmd command = None \<or> endDate_cmd command = None \<Longrightarrow>
   \<exists>m. createClosingPeriod clock command = Inl (InvalidClosingPeriodError m)"
  by (cases "startDate_cmd command"; cases "endDate_cmd command")
     (auto simp add: createClosingPeriod_def assertStartDateIsValid_def assertEndDateIsValid_def)

section \<open>What a successful validation of the type and of the dates gives\<close>

lemma andThen_unit_Inr:
  fixes r :: "error + unit"
  shows "andThen r (\<lambda>_. k) = Inr y \<longleftrightarrow> r = Inr () \<and> k = Inr y"
  by (cases r) simp_all

lemma assertTypeIsValid_Inr:
  "assertTypeIsValid type isAdmin = Inr u \<Longrightarrow>
   (type = PICK_UP \<or> type = DELIVERY \<or> type = RESERVATION) \<and> (type = RESERVATION \<longrightarrow> isAdmin)"
  by (auto simp add: assertTypeIsValid_def OrderType_keys_def split: if_splits)

lemma assertPickUpDateIsValid_Inr:
  "assertPickUpDateIsValid clock PICK_UP closingPeriods d = Inr u \<Longrightarrow> d \<noteq> None"
  by (cases d) (simp_all add: assertPickUpDateIsValid_def)

lemma assertDeliveryDateIsValid_Inr:
  "assertDeliveryDateIsValid clock DELIVERY closingPeriods d = Inr u \<Longrightarrow> d \<noteq> None"
  by (cases d) (simp_all add: assertDeliveryDateIsValid_def)

lemma assertDeliveryAddressIsValid_Inr:
  "assertDeliveryAddressIsValid DELIVERY a = Inr u \<Longrightarrow> a \<noteq> None \<and> a \<noteq> Some []"
  by (cases a) (simp_all add: assertDeliveryAddressIsValid_def isEmptyOpt_def isEmpty_def
      split: if_splits)

lemma assertReservationDateIsValid_Inr:
  "assertReservationDateIsValid clock RESERVATION closingPeriods d = Inr u \<Longrightarrow> d \<noteq> None"
  by (cases d) (simp_all add: assertReservationDateIsValid_def)

lemma bindOrderTypeSelection_PICK_UP:
  "type_cmd command = PICK_UP \<Longrightarrow>
   bindOrderTypeSelection clock this command closingPeriods isAdmin =
     andThen (assertPickUpDateIsValid clock PICK_UP closingPeriods (pickUpDate_cmd command))
       (\<lambda>_. Inr (this\<lparr>orderType := PICK_UP, pickUpDate := None, deliveryDate := None,
                       deliveryAddress := None, reservationDate := None,
                       pickUpDate := pickUpDate_cmd command\<rparr>))"
  by (simp add: bindOrderTypeSelection_def assertTypeIsValid_def OrderType_keys_def isEmpty_def
      assertDeliveryDateIsValid_def assertDeliveryAddressIsValid_def
      assertReservationDateIsValid_def PICK_UP_def DELIVERY_def RESERVATION_def)

lemma bindOrderTypeSelection_DELIVERY:
  "type_cmd command = DELIVERY \<Longrightarrow>
   bindOrderTypeSelection clock this command closingPeriods isAdmin =
     andThen (assertDeliveryDateIsValid clock DELIVERY closingPeriods (deliveryDate_cmd command))
       (\<lambda>_. andThen (assertDeliveryAddressIsValid DELIVERY (deliveryAddress_cmd command))
       (\<lambda>_. Inr (this\<lparr>orderType := DELIVERY, pickUpDate := None, deliveryDate := None,
                       deliveryAddress := None, reservationDate := None,
                       deliveryDate := deliveryDate_cmd command,
                       deliveryAddress := deliveryAddress_cmd command\<rparr>)))"
  by (simp add: bindOrderTypeSelection_def assertTypeIsValid_def OrderType_keys_def isEmpty_def
      assertPickUpDateIsValid_def assertReservationDateIsValid_def
      PICK_UP_def DELIVERY_def RESERVATION_def)

lemma bindOrderTypeSelection_RESERVATION:
  "type_cmd command = RESERVATION \<Longrightarrow>
   bindOrderTypeSelection clock this command closingPeriods isAdmin =
     (if \<not> isAdmin
      then Inl (InvalidUserError [Txt ''RESERVATION order type requires to be ADMIN''])
      else andThen (assertReservationDateIsValid clock RESERVATION closingPeriods
                      (reservationDate_cmd command))
             (\<lambda>_. Inr (this\<lparr>orderType := RESERVATION, pickUpDate := None,
                             deliveryDate := None, deliveryAddress := None,
                             reservationDate := None,
                             reservationDate := reservationDate_cmd command\<rparr>)))"
  by (simp add: bindOrderTypeSelection_def assertTypeIsValid_def OrderType_keys_def isEmpty_def
      assertPickUpDateIsValid_def assertDeliveryDateIsValid_def assertDeliveryAddressIsValid_def
      PICK_UP_def DELIVERY_def RESERVATION_def)

lemma bindOrderTypeSelection_unknown:
  "type_cmd command \<noteq> PICK_UP \<Longrightarrow> type_cmd command \<noteq> DELIVERY \<Longrightarrow>
   type_cmd command \<noteq> RESERVATION \<Longrightarrow>
   bindOrderTypeSelection clock this command closingPeriods isAdmin =
     Inl (InvalidOrderError
           (if type_cmd command = [] then [Txt ''order type has to be defined'']
            else [Txt ''unknown order type '', Txt (type_cmd command)]))"
  by (simp add: bindOrderTypeSelection_def assertTypeIsValid_def OrderType_keys_def isEmpty_def)

lemma bindOrderTypeSelection_Inr:
  assumes "bindOrderTypeSelection clock this command closingPeriods isAdmin = Inr this'"
  shows "dateFieldsMatchType this' \<and> orderType this' = type_cmd command \<and>
         order_id this' = order_id this \<and> clientName this' = clientName this \<and>
         clientPhoneNumber this' = clientPhoneNumber this \<and>
         clientEmailAddress this' = clientEmailAddress this \<and>
         products this' = products this \<and> note_order this' = note_order this"
proof -
  consider (pick) "type_cmd command = PICK_UP" | (deliv) "type_cmd command = DELIVERY"
    | (reserv) "type_cmd command = RESERVATION"
    | (unknown) "type_cmd command \<noteq> PICK_UP" "type_cmd command \<noteq> DELIVERY"
        "type_cmd command \<noteq> RESERVATION"
    by blast
  then show ?thesis
  proof cases
    case pick
    from assms [unfolded bindOrderTypeSelection_PICK_UP [OF pick] andThen_unit_Inr]
    show ?thesis
      using pick by (auto simp add: dateFieldsMatchType_def dest: assertPickUpDateIsValid_Inr)
  next
    case deliv
    from assms [unfolded bindOrderTypeSelection_DELIVERY [OF deliv] andThen_unit_Inr]
    show ?thesis
      using deliv
      by (auto simp add: dateFieldsMatchType_def
          dest: assertDeliveryDateIsValid_Inr assertDeliveryAddressIsValid_Inr)
  next
    case reserv
    from assms [unfolded bindOrderTypeSelection_RESERVATION [OF reserv]]
    show ?thesis
      using reserv
      by (auto simp add: dateFieldsMatchType_def andThen_unit_Inr split: if_splits
          dest: assertReservationDateIsValid_Inr)
  next
    case unknown
    from assms [unfolded bindOrderTypeSelection_unknown [OF unknown]]
    show ?thesis by simp
  qed
qed

lemma bindProductSelection_Inr:
  "bindProductSelection this command activeProducts = Inr this' \<Longrightarrow>
   \<exists>resolved. mapToProductWithQuantity (products_cmd command) activeProducts = Inr resolved \<and>
              this' = this\<lparr>products := resolved\<rparr>"
  by (auto simp add: bindProductSelection_def andThen_eq_Inr)

lemma bindContactDetails_Inr:
  "bindContactDetails this command = Inr this' \<Longrightarrow>
   this' = this\<lparr>clientName := clientName_cmd command,
                clientPhoneNumber := clientPhoneNumber_cmd command,
                clientEmailAddress := clientEmailAddress_cmd command\<rparr>"
  by (auto simp add: bindContactDetails_def andThen_eq_Inr)

lemma create_Inr:
  assumes "create clock table command activeProducts closingPeriods isAdmin = Some (Inr order)"
  shows "\<exists>this1 this2 this3.
           bindContactDetails (newObject\<lparr>order_id := None\<rparr>) command = Inr this1 \<and>
           bindProductSelection this1 command activeProducts = Inr this2 \<and>
           bindOrderTypeSelection clock this2 command closingPeriods isAdmin = Inr this3 \<and>
           order = this3\<lparr>note_order := note_cmd command\<rparr>"
  using assms unfolding create_def
  by (auto simp add: andThen_eq_Inr split: sum.splits option.splits if_splits)

lemma updateWith_None:
  assumes "updateWith clock this command activeProducts closingPeriods = (None, order)"
  shows "\<exists>this1 this2.
           order_id this = Some (orderId command) \<and>
           bindProductSelection this command activeProducts = Inr this1 \<and>
           bindOrderTypeSelection clock this1 command closingPeriods True = Inr this2 \<and>
           order = this2\<lparr>note_order := note_cmd command\<rparr>"
  using assms unfolding updateWith_def
  by (auto simp add: Let_def split: sum.splits if_splits)

lemma updateWith_example:
  "updateWith (clockAt now) existingOrder updateOrderCommand [fakeProduct] [] = (None, updatedOrder)"
  by (simp add: updateWith_def bindProductSelection_def bindOrderTypeSelection_def assert_defs
      existingOrder_def updateOrderCommand_def updatedOrder_def fakeProduct_def now_def
      isFirstDateBeforeSecondDateIgnoringHours_def date_defs day_defs Let_def
      PICK_UP_def DELIVERY_def RESERVATION_def)

section \<open>The errors of the binding functions\<close>

lemma andThen_eq_Inl:
  "andThen r f = Inl e \<longleftrightarrow> r = Inl e \<or> (\<exists>x. r = Inr x \<and> f x = Inl e)"
  by (cases r) simp_all

lemma mapToProductWithQuantity_Inl:
  "mapToProductWithQuantity ps activeProducts = Inl e \<Longrightarrow>
   \<exists>p. e = InvalidOrderError [Txt ''product with id '', Num p, Txt '' not found'']"
proof (induction ps)
  case Nil
  then show ?case by simp
next
  case (Cons q ps)
  then show ?case
    by (auto simp add: toProductWithQuantity_def split: sum.splits option.splits)
qed

text \<open>The errors of \<^verbatim>\<open>bindProductSelection\<close>: three messages of \<^verbatim>\<open>InvalidOrderError\<close>.\<close>

lemma bindProductSelection_Inl:
  assumes "bindProductSelection this command activeProducts = Inl e"
  shows "e = InvalidOrderError [Txt ''an order must have at least one product''] \<or>
         (\<exists>q. e = InvalidOrderError [Txt ''product quantity '', Num q,
                                      Txt '' has to be positive'']) \<or>
         (\<exists>p. e = InvalidOrderError [Txt ''product with id '', Num p, Txt '' not found''])"
proof -
  from assms consider
      (products) "assertProductsAreValid (products_cmd command) = Inl e"
    | (resolution) "mapToProductWithQuantity (products_cmd command) activeProducts = Inl e"
    unfolding bindProductSelection_def by (auto simp add: andThen_eq_Inl)
  then show ?thesis
  proof cases
    case products
    then show ?thesis
      by (auto simp add: assertProductsAreValid_def split: if_splits option.splits)
  next
    case resolution
    from mapToProductWithQuantity_Inl [OF this] show ?thesis by blast
  qed
qed

lemma bindProductSelection_error_kind:
  assumes "bindProductSelection this command activeProducts = Inl e"
  shows "(\<forall>m. e \<noteq> InvalidUserError m) \<and> e \<noteq> cannotBeSameDayAsNow d \<and>
         e \<noteq> hasToBeAtLeastDaysAfterNow d n \<and> e \<noteq> hasToBeOneOfTheNextAvailableThursday d"
  using bindProductSelection_Inl [OF assms]
  by (auto simp add: cannotBeSameDayAsNow_def hasToBeAtLeastDaysAfterNow_def
      hasToBeOneOfTheNextAvailableThursday_def)

lemma bindContactDetails_Inl:
  "bindContactDetails this command = Inl e \<Longrightarrow> \<exists>m. e = InvalidOrderError m"
  by (auto simp add: bindContactDetails_def andThen_eq_Inl assertClientNameIsValid_def
      assertClientPhoneNumberIsValid_def assertClientEmailAddressIsValid_def split: if_splits)

lemma assertPickUpDateIsValid_error_kind:
  "assertPickUpDateIsValid clock type closingPeriods pickUpDate' = Inl e \<Longrightarrow>
   (\<forall>m. e \<noteq> InvalidUserError m) \<and> e \<noteq> cannotBeSameDayAsNow d \<and>
   e \<noteq> hasToBeAtLeastDaysAfterNow d n \<and> e \<noteq> hasToBeOneOfTheNextAvailableThursday d"
  by (auto simp add: assertPickUpDateIsValid_def cannotBeSameDayAsNow_def
      hasToBeAtLeastDaysAfterNow_def hasToBeOneOfTheNextAvailableThursday_def
      split: if_splits option.splits)

lemma assertDeliveryDateIsValid_error_kind:
  "assertDeliveryDateIsValid clock type closingPeriods deliveryDate' = Inl e \<Longrightarrow>
   (\<forall>m. e \<noteq> InvalidUserError m) \<and> e \<noteq> cannotBeSameDayAsNow d \<and>
   e \<noteq> hasToBeAtLeastDaysAfterNow d n \<and> e \<noteq> hasToBeOneOfTheNextAvailableThursday d"
  by (auto simp add: assertDeliveryDateIsValid_def cannotBeSameDayAsNow_def
      hasToBeAtLeastDaysAfterNow_def hasToBeOneOfTheNextAvailableThursday_def
      split: if_splits option.splits)

lemma assertDeliveryAddressIsValid_error_kind:
  "assertDeliveryAddressIsValid type deliveryAddress' = Inl e \<Longrightarrow>
   (\<forall>m. e \<noteq> InvalidUserError m) \<and> e \<noteq> cannotBeSameDayAsNow d \<and>
   e \<noteq> hasToBeAtLeastDaysAfterNow d n \<and> e \<noteq> hasToBeOneOfTheNextAvailableThursday d"
  by (auto simp add: assertDeliveryAddressIsValid_def cannotBeSameDayAsNow_def
      hasToBeAtLeastDaysAfterNow_def hasToBeOneOfTheNextAvailableThursday_def
      split: if_splits)

lemma assertReservationDateIsValid_error_kind:
  "assertReservationDateIsValid clock type closingPeriods reservationDate' = Inl e \<Longrightarrow>
   (\<forall>m. e \<noteq> InvalidUserError m) \<and> e \<noteq> cannotBeSameDayAsNow d \<and>
   e \<noteq> hasToBeAtLeastDaysAfterNow d n \<and> e \<noteq> hasToBeOneOfTheNextAvailableThursday d"
  by (auto simp add: assertReservationDateIsValid_def cannotBeSameDayAsNow_def
      hasToBeAtLeastDaysAfterNow_def hasToBeOneOfTheNextAvailableThursday_def
      split: if_splits option.splits)

lemma assertTypeIsValid_admin_error_kind:
  "assertTypeIsValid type True = Inl e \<Longrightarrow>
   (\<forall>m. e \<noteq> InvalidUserError m) \<and> e \<noteq> cannotBeSameDayAsNow d \<and>
   e \<noteq> hasToBeAtLeastDaysAfterNow d n \<and> e \<noteq> hasToBeOneOfTheNextAvailableThursday d"
  by (auto simp add: assertTypeIsValid_def cannotBeSameDayAsNow_def
      hasToBeAtLeastDaysAfterNow_def hasToBeOneOfTheNextAvailableThursday_def
      split: if_splits)

lemma bindOrderTypeSelection_admin_error_kind:
  assumes "bindOrderTypeSelection clock this command closingPeriods True = Inl e"
  shows "(\<forall>m. e \<noteq> InvalidUserError m) \<and> e \<noteq> cannotBeSameDayAsNow d \<and>
         e \<noteq> hasToBeAtLeastDaysAfterNow d n \<and> e \<noteq> hasToBeOneOfTheNextAvailableThursday d"
proof -
  from assms consider
      "assertTypeIsValid (type_cmd command) True = Inl e"
    | "assertPickUpDateIsValid clock (type_cmd command) closingPeriods (pickUpDate_cmd command)
       = Inl e"
    | "assertDeliveryDateIsValid clock (type_cmd command) closingPeriods
         (deliveryDate_cmd command) = Inl e"
    | "assertDeliveryAddressIsValid (type_cmd command) (deliveryAddress_cmd command) = Inl e"
    | "assertReservationDateIsValid clock (type_cmd command) closingPeriods
         (reservationDate_cmd command) = Inl e"
    unfolding bindOrderTypeSelection_def by (auto simp add: andThen_eq_Inl Let_def)
  then show ?thesis
  proof cases
    case 1 then show ?thesis by (rule assertTypeIsValid_admin_error_kind)
  next
    case 2 then show ?thesis by (rule assertPickUpDateIsValid_error_kind)
  next
    case 3 then show ?thesis by (rule assertDeliveryDateIsValid_error_kind)
  next
    case 4 then show ?thesis by (rule assertDeliveryAddressIsValid_error_kind)
  next
    case 5 then show ?thesis by (rule assertReservationDateIsValid_error_kind)
  qed
qed

section \<open>The object after updateWith\<close>

lemma updateWith_cases:
  "updateWith clock this command activeProducts closingPeriods =
     (if order_id this \<noteq> Some (orderId command)
      then (Some (InvalidOrderError
                   [Txt ''existing order id '', OptNum (order_id this),
                    Txt '' does not match command order id '', Num (orderId command)]),
            this)
      else case bindProductSelection this command activeProducts of
             Inl e \<Rightarrow> (Some e, this)
           | Inr this1 \<Rightarrow>
              (case bindOrderTypeSelection clock this1 command closingPeriods True of
                 Inl e \<Rightarrow> (Some e, this1)
               | Inr this2 \<Rightarrow> (None, this2\<lparr>note_order := note_cmd command\<rparr>)))"
  by (simp add: updateWith_def Let_def)

lemma updateWith_Some:
  assumes "updateWith clock this command activeProducts closingPeriods = (Some e, this')"
  shows "(this' = this \<and>
          (order_id this \<noteq> Some (orderId command) \<or>
           bindProductSelection this command activeProducts = Inl e)) \<or>
         (\<exists>resolved. order_id this = Some (orderId command) \<and>
            mapToProductWithQuantity (products_cmd command) activeProducts = Inr resolved \<and>
            this' = this\<lparr>products := resolved\<rparr> \<and>
            bindOrderTypeSelection clock this' command closingPeriods True = Inl e)"
proof (cases "order_id this = Some (orderId command)")
  case False
  with assms show ?thesis by (simp add: updateWith_cases)
next
  case True
  show ?thesis
  proof (cases "bindProductSelection this command activeProducts")
    case (Inl e')
    with True assms show ?thesis by (simp add: updateWith_cases)
  next
    case (Inr this1)
    from bindProductSelection_Inr [OF this] obtain resolved
      where r: "mapToProductWithQuantity (products_cmd command) activeProducts = Inr resolved"
        "this1 = this\<lparr>products := resolved\<rparr>" by blast
    from True Inr assms
    have "bindOrderTypeSelection clock this1 command closingPeriods True = Inl e \<and> this' = this1"
      by (auto simp add: updateWith_cases split: sum.splits)
    with True r show ?thesis by blast
  qed
qed

section \<open>Creation of a reservation\<close>

lemma create_RESERVATION_not_admin:
  assumes "type_cmd command = RESERVATION"
  shows "create clock table command activeProducts closingPeriods False =
     (case bindContactDetails newObject command of
        Inl e \<Rightarrow> Some (Inl e)
      | Inr this1 \<Rightarrow>
         (case bindProductSelection this1 command activeProducts of
            Inl e \<Rightarrow> Some (Inl e)
          | Inr this2 \<Rightarrow>
              Some (Inl (InvalidUserError
                          [Txt ''RESERVATION order type requires to be ADMIN'']))))"
  by (simp add: create_def bindOrderTypeSelection_RESERVATION [OF assms] newObject_def
      split: sum.splits)

lemma create_RESERVATION_admin:
  assumes "type_cmd command = RESERVATION"
      and "bindContactDetails newObject command = Inr this1"
      and "bindProductSelection this1 command activeProducts = Inr this2"
      and "assertReservationDateIsValid clock RESERVATION closingPeriods
             (reservationDate_cmd command) = Inr ()"
  shows "create clock table command activeProducts closingPeriods True =
     Some (Inr (this2\<lparr>orderType := RESERVATION, pickUpDate := None, deliveryDate := None,
                      deliveryAddress := None,
                      reservationDate := reservationDate_cmd command,
                      note_order := note_cmd command\<rparr>))"
proof -
  have "bindContactDetails (newObject\<lparr>order_id := None\<rparr>) command = Inr this1"
    using assms(2) by (simp add: newObject_def)
  then show ?thesis
    by (simp add: create_def bindOrderTypeSelection_RESERVATION [OF assms(1)] assms(3,4))
qed

lemma assertReservationDateIsValid_ok:
  assumes "\<not> dayNumber d < dayNumber (easternNow clock)"
      and "TUESDAY \<le> getDay d" and "getDay d \<le> SATURDAY"
      and "\<forall>p \<in> set closingPeriods. \<not> isInClosingPeriod d p"
  shows "assertReservationDateIsValid clock RESERVATION closingPeriods (Some d) = Inr ()"
  using assms
  by (auto simp add: assertReservationDateIsValid_def isFirstDateBeforeSecondDateIgnoringHours_def
      CLOSING_DAYS_def day_defs list_ex_iff)

lemma create_reservationCommand_not_admin:
  "create clock table (reservationCommand d) [fakeProduct] [] False =
     Some (Inl (InvalidUserError [Txt ''RESERVATION order type requires to be ADMIN'']))"
  by (simp add: create_def bindContactDetails_def bindProductSelection_def
      bindOrderTypeSelection_def assert_defs example_commands reservationCommand_def
      email_of_the_tests PICK_UP_def DELIVERY_def RESERVATION_def del: test.simps)

lemma create_reservationCommand_as_admin:
  assumes "\<not> dayNumber d < dayNumber (easternNow clock)" "getDay d \<noteq> 0" "getDay d \<noteq> 1"
  shows "create clock table (reservationCommand d) [fakeProduct] [] True =
         Some (Inr (reservationOrder d))"
  using assms
  by (simp add: create_def bindContactDetails_def bindProductSelection_def
      bindOrderTypeSelection_def assert_defs example_commands reservationCommand_def
      reservationOrder_def email_of_the_tests
      isFirstDateBeforeSecondDateIgnoringHours_def day_defs Let_def
      PICK_UP_def DELIVERY_def RESERVATION_def del: test.simps)

section \<open>Termination of the projection loop\<close>

text \<open>
  C10. For a weekday 0..6, \<^verbatim>\<open>getNextDateHavingDay\<close> leaves its loop after \<open>n\<close> iterations,
  \<open>1 \<le> n \<le> 7\<close>, and returns the date \<open>n\<close> days after \<^verbatim>\<open>new Date()\<close>: it falls on the
  weekday, on the next calendar occurrence of it, strictly after today, and none of the
  dates the loop has passed falls on it. For \<^verbatim>\<open>undefined\<close> the loop never ends; this is
  what happens in the lead-time check when the table has no row for the current day and the
  same-day rule has not rejected the date, and a non-admin creation of a pick-up order whose
  other validations pass then never returns.
\<close>

theorem getNextDateHavingDay_terminates_on_weekdays:
  "(0 \<le> day \<and> day < 7 \<longrightarrow>
      (\<exists>n. 1 \<le> n \<and> n \<le> 7 \<and>
           getNextDateHavingDay clock (Some day) =
             Some ((setDateToNextDay ^^ n) (systemNow clock)) \<and>
           getDay ((setDateToNextDay ^^ n) (systemNow clock)) = day \<and>
           dayNumber ((setDateToNextDay ^^ n) (systemNow clock)) =
             nextOccurrenceOfDay (systemNow clock) day \<and>
           dayNumber (systemNow clock) < dayNumber ((setDateToNextDay ^^ n) (systemNow clock)) \<and>
           (\<forall>m. 1 \<le> m \<and> m < n \<longrightarrow>
                getDay ((setDateToNextDay ^^ m) (systemNow clock)) \<noteq> day))) \<and>
   getNextDateHavingDay clock None = None \<and>
   (lookupFirstAvailableDay table (getDay (effectiveNow clock)) = None \<and>
    \<not> (getNumberOfDaysBetweenFirstDateAndSecondDate (effectiveNow clock) pickUpDate'
          < NUMBER_OF_DAYS_IN_A_WEEK \<and>
        getDay (effectiveNow clock) = getDay pickUpDate') \<longrightarrow>
      assertPickUpDateIsEqualOrAfterTheFirstAvailableDay clock table PICK_UP (Some pickUpDate')
        = None \<and>
      (type_cmd command = PICK_UP \<and> pickUpDate_cmd command = Some pickUpDate' \<and>
       create clock table command activeProducts closingPeriods True = Some (Inr order)
       \<longrightarrow> create clock table command activeProducts closingPeriods False = None))"
proof (intro conjI impI)
  assume day: "0 \<le> day \<and> day < 7"
  let ?g = "getDay (systemNow clock)"
  let ?n = "Suc (nat ((day - ?g - 1) mod 7))"
  have g: "0 \<le> ?g" "?g < 7" using getDay_range by simp_all
  have n7: "?n \<le> 7" using pos_mod_bound [of 7 "day - ?g - 1"] by simp
  have run: "getNextDateHavingDay clock (Some day) = Some ((setDateToNextDay ^^ ?n) (systemNow clock))"
    unfolding getNextDateHavingDay_def using day by (intro loop_result) simp_all
  have wd: "getDay ((setDateToNextDay ^^ ?n) (systemNow clock)) = day"
    unfolding getDay_funpow using weekday_offset [of day ?g] day g by simp
  have dn: "dayNumber ((setDateToNextDay ^^ ?n) (systemNow clock)) =
            nextOccurrenceOfDay (systemNow clock) day"
    unfolding dayNumber_funpow nextOccurrenceOfDay_def by simp
  have future: "dayNumber (systemNow clock) < dayNumber ((setDateToNextDay ^^ ?n) (systemNow clock))"
    unfolding dayNumber_funpow by simp
  have first: "\<forall>m. 1 \<le> m \<and> m < ?n \<longrightarrow> getDay ((setDateToNextDay ^^ m) (systemNow clock)) \<noteq> day"
  proof (intro allI impI)
    fix m :: nat
    assume m: "1 \<le> m \<and> m < ?n"
    have "0 \<le> (day - ?g - 1) mod 7" by simp
    then have "int m < 1 + (day - ?g - 1) mod 7" using m by linarith
    then have "(?g + int m) mod 7 \<noteq> day"
      using weekday_first [of day ?g "int m"] day g m by simp
    then show "getDay ((setDateToNextDay ^^ m) (systemNow clock)) \<noteq> day"
      unfolding getDay_funpow .
  qed
  show "\<exists>n. 1 \<le> n \<and> n \<le> 7 \<and>
           getNextDateHavingDay clock (Some day) =
             Some ((setDateToNextDay ^^ n) (systemNow clock)) \<and>
           getDay ((setDateToNextDay ^^ n) (systemNow clock)) = day \<and>
           dayNumber ((setDateToNextDay ^^ n) (systemNow clock)) =
             nextOccurrenceOfDay (systemNow clock) day \<and>
           dayNumber (systemNow clock) < dayNumber ((setDateToNextDay ^^ n) (systemNow clock)) \<and>
           (\<forall>m. 1 \<le> m \<and> m < n \<longrightarrow>
                getDay ((setDateToNextDay ^^ m) (systemNow clock)) \<noteq> day)"
    using n7 run wd dn future first by (intro exI [of _ ?n]) simp
next
  show "getNextDateHavingDay clock None = None"
    by (simp add: getNextDateHavingDay_def loop_undefined)
next
  assume a: "lookupFirstAvailableDay table (getDay (effectiveNow clock)) = None \<and>
    \<not> (getNumberOfDaysBetweenFirstDateAndSecondDate (effectiveNow clock) pickUpDate'
          < NUMBER_OF_DAYS_IN_A_WEEK \<and>
        getDay (effectiveNow clock) = getDay pickUpDate')"
  then show never: "assertPickUpDateIsEqualOrAfterTheFirstAvailableDay clock table PICK_UP
        (Some pickUpDate') = None"
    using stage_after_same_day [of clock pickUpDate' table]
    by (simp add: getNextDateHavingDay_def loop_undefined)
  assume c: "type_cmd command = PICK_UP \<and> pickUpDate_cmd command = Some pickUpDate' \<and>
       create clock table command activeProducts closingPeriods True = Some (Inr order)"
  then have "type_cmd command \<noteq> RESERVATION" by simp
  from create_not_admin [OF this] c never
  show "create clock table command activeProducts closingPeriods False = None" by simp
qed

theorem getNextDateHavingDay_terminates_on_weekdays_witness:
  "0 \<le> THURSDAY \<and> THURSDAY < 7 \<and>
   (\<exists>n. 1 \<le> n \<and> n \<le> 7 \<and>
        getNextDateHavingDay (clockAt aMondayInTheFutureBeforeSevenPM) (Some THURSDAY) =
          Some ((setDateToNextDay ^^ n) (systemNow (clockAt aMondayInTheFutureBeforeSevenPM))) \<and>
        dayNumber ((setDateToNextDay ^^ n) (systemNow (clockAt aMondayInTheFutureBeforeSevenPM)))
          = 22008) \<and>
   lookupFirstAvailableDay referenceTable
     (getDay (effectiveNow (clockAt aMondayInTheFutureBeforeSevenPM))) = None \<and>
   assertPickUpDateIsEqualOrAfterTheFirstAvailableDay (clockAt aMondayInTheFutureBeforeSevenPM)
     referenceTable PICK_UP (Some aThursdayInTheFutureBeforeSevenPM) = None \<and>
   create (clockAt aMondayInTheFutureBeforeSevenPM) referenceTable
     (pickUpCommand aThursdayInTheFutureBeforeSevenPM) [fakeProduct] [] True =
     Some (Inr (pickUpOrder aThursdayInTheFutureBeforeSevenPM)) \<and>
   create (clockAt aMondayInTheFutureBeforeSevenPM) referenceTable
     (pickUpCommand aThursdayInTheFutureBeforeSevenPM) [fakeProduct] [] False = None"
proof -
  let ?c = "clockAt aMondayInTheFutureBeforeSevenPM"
  have day: "0 \<le> THURSDAY \<and> THURSDAY < 7" by (simp add: THURSDAY_def)
  have occ: "nextOccurrenceOfDay (systemNow ?c) THURSDAY = 22008"
    by (simp add: nextOccurrenceOfDay_def date_defs day_defs example_dates)
  have row: "lookupFirstAvailableDay referenceTable (getDay (effectiveNow ?c)) = None"
    by (simp add: lookupFirstAvailableDay_def referenceTable_def date_defs day_defs example_dates)
  have rule: "\<not> (getNumberOfDaysBetweenFirstDateAndSecondDate (effectiveNow ?c)
                   aThursdayInTheFutureBeforeSevenPM < NUMBER_OF_DAYS_IN_A_WEEK \<and>
                 getDay (effectiveNow ?c) = getDay aThursdayInTheFutureBeforeSevenPM)"
    by (simp add: date_defs example_dates)
  have admin: "create ?c referenceTable (pickUpCommand aThursdayInTheFutureBeforeSevenPM)
        [fakeProduct] [] True = Some (Inr (pickUpOrder aThursdayInTheFutureBeforeSevenPM))"
    by (rule create_pickUpCommand_as_admin) (simp_all add: date_defs example_dates)
  have cmd: "type_cmd (pickUpCommand aThursdayInTheFutureBeforeSevenPM) = PICK_UP"
    "pickUpDate_cmd (pickUpCommand aThursdayInTheFutureBeforeSevenPM) =
       Some aThursdayInTheFutureBeforeSevenPM"
    by (simp_all add: pickUpCommand_def)
  from getNextDateHavingDay_terminates_on_weekdays
         [of THURSDAY ?c referenceTable aThursdayInTheFutureBeforeSevenPM
             "pickUpCommand aThursdayInTheFutureBeforeSevenPM" "[fakeProduct]" "[]"
             "pickUpOrder aThursdayInTheFutureBeforeSevenPM"] day occ row rule admin cmd
  show ?thesis by auto
qed

section \<open>The rules of a non-admin creation\<close>

text \<open>
  C1. The current day is the weekday of now, moved to the following day from 19:00 on.
  When the table gives a weekday 0..6 for the current day and the same-day rule has not
  rejected the pick-up date, the lead-time check throws
  \<^verbatim>\<open>pick-up date {date} has to be at least {n} days after now\<close> exactly when the calendar day
  of the pick-up date is before the next calendar occurrence of that weekday, counted from
  \<^verbatim>\<open>new Date()\<close>; \<open>n\<close> is the number of days from the shifted now to that occurrence.
  Otherwise the check passes. A non-admin creation whose other validations pass (the same
  command creates an order for an admin) fails with that error in the first case and returns
  the order in the second; in the first case the creation fails whatever the other
  validations say.
\<close>

theorem pick_up_lead_time_rule:
  assumes "lookupFirstAvailableDay table (getDay (effectiveNow clock)) = Some day"
      and "0 \<le> day" and "day < 7"
      and "\<not> (getNumberOfDaysBetweenFirstDateAndSecondDate (effectiveNow clock) d
                 < NUMBER_OF_DAYS_IN_A_WEEK \<and>
               getDay (effectiveNow clock) = getDay d)"
  shows "getDay (effectiveNow clock) =
           (if getHours (easternNow clock) \<ge> 19 then (getDay (easternNow clock) + 1) mod 7
            else getDay (easternNow clock)) \<and>
         assertPickUpDateIsEqualOrAfterTheFirstAvailableDay clock table PICK_UP (Some d) =
           Some (if dayNumber d < nextOccurrenceOfDay (systemNow clock) day
                 then Inl (hasToBeAtLeastDaysAfterNow d
                        (nextOccurrenceOfDay (systemNow clock) day
                           - dayNumber (effectiveNow clock)))
                 else Inr ()) \<and>
         (type_cmd command = PICK_UP \<and> pickUpDate_cmd command = Some d \<and>
          create clock table command activeProducts closingPeriods True = Some (Inr order)
          \<longrightarrow>
          create clock table command activeProducts closingPeriods False =
            Some (if dayNumber d < nextOccurrenceOfDay (systemNow clock) day
                  then Inl (hasToBeAtLeastDaysAfterNow d
                         (nextOccurrenceOfDay (systemNow clock) day
                            - dayNumber (effectiveNow clock)))
                  else Inr order)) \<and>
         (type_cmd command = PICK_UP \<and> pickUpDate_cmd command = Some d \<and>
          dayNumber d < nextOccurrenceOfDay (systemNow clock) day
          \<longrightarrow>
          (\<exists>e. create clock table command activeProducts closingPeriods False = Some (Inl e)))"
proof (intro conjI impI)
  show "getDay (effectiveNow clock) =
           (if getHours (easternNow clock) \<ge> 19 then (getDay (easternNow clock) + 1) mod 7
            else getDay (easternNow clock))"
    by (rule effectiveNow_day)
next
  show "assertPickUpDateIsEqualOrAfterTheFirstAvailableDay clock table PICK_UP (Some d) =
           Some (if dayNumber d < nextOccurrenceOfDay (systemNow clock) day
                 then Inl (hasToBeAtLeastDaysAfterNow d
                        (nextOccurrenceOfDay (systemNow clock) day
                           - dayNumber (effectiveNow clock)))
                 else Inr ())"
    by (rule stage_with_row [OF assms])
next
  assume c: "type_cmd command = PICK_UP \<and> pickUpDate_cmd command = Some d \<and>
          create clock table command activeProducts closingPeriods True = Some (Inr order)"
  then have "type_cmd command \<noteq> RESERVATION" by simp
  from create_not_admin [OF this] c
  show "create clock table command activeProducts closingPeriods False =
            Some (if dayNumber d < nextOccurrenceOfDay (systemNow clock) day
                  then Inl (hasToBeAtLeastDaysAfterNow d
                         (nextOccurrenceOfDay (systemNow clock) day
                            - dayNumber (effectiveNow clock)))
                  else Inr order)"
    by (simp add: stage_with_row [OF assms] delivery_rule_skipped)
next
  assume "type_cmd command = PICK_UP \<and> pickUpDate_cmd command = Some d \<and>
          dayNumber d < nextOccurrenceOfDay (systemNow clock) day"
  then have "assertPickUpDateIsEqualOrAfterTheFirstAvailableDay clock table (type_cmd command)
     (pickUpDate_cmd command) =
     Some (Inl (hasToBeAtLeastDaysAfterNow d
             (nextOccurrenceOfDay (systemNow clock) day - dayNumber (effectiveNow clock))))"
    by (simp add: stage_with_row [OF assms])
  then show "\<exists>e. create clock table command activeProducts closingPeriods False = Some (Inl e)"
    by (rule create_fails_with_pick_up_rule)
qed

theorem pick_up_lead_time_rule_witness:
  "lookupFirstAvailableDay referenceTable
     (getDay (effectiveNow (clockAt aTuesdayInTheFutureAtSevenPM))) = Some SATURDAY \<and>
   0 \<le> SATURDAY \<and> SATURDAY < 7 \<and>
   getDay (effectiveNow (clockAt aTuesdayInTheFutureAtSevenPM)) = WEDNESDAY \<and>
   create (clockAt aTuesdayInTheFutureAtSevenPM) referenceTable
     (pickUpCommand aFridayInTheFutureBeforeSevenPM) [fakeProduct] [] True =
     Some (Inr (pickUpOrder aFridayInTheFutureBeforeSevenPM)) \<and>
   create (clockAt aTuesdayInTheFutureAtSevenPM) referenceTable
     (pickUpCommand aFridayInTheFutureBeforeSevenPM) [fakeProduct] [] False =
     Some (Inl (hasToBeAtLeastDaysAfterNow aFridayInTheFutureBeforeSevenPM 3)) \<and>
   create (clockAt aTuesdayInTheFutureAtSevenPM) referenceTable
     (pickUpCommand aSaturdayInTheFutureBeforeSevenPM) [fakeProduct] [] False =
     Some (Inr (pickUpOrder aSaturdayInTheFutureBeforeSevenPM)) \<and>
   lookupFirstAvailableDay testedTable
     (getDay (effectiveNow (clockAt aMondayInTheFutureBeforeSevenPM))) = Some THURSDAY \<and>
   create (clockAt aMondayInTheFutureBeforeSevenPM) testedTable
     (pickUpCommand aTuesdayInTheFutureBeforeSevenPM) [fakeProduct] [] False =
     Some (Inl (hasToBeAtLeastDaysAfterNow aTuesdayInTheFutureBeforeSevenPM 3)) \<and>
   create (clockAt aMondayInTheFutureBeforeSevenPM) testedTable
     (pickUpCommand aThursdayInTheFutureBeforeSevenPM) [fakeProduct] [] False =
     Some (Inr (pickUpOrder aThursdayInTheFutureBeforeSevenPM))"
proof -
  let ?c = "clockAt aTuesdayInTheFutureAtSevenPM"
  let ?fri = aFridayInTheFutureBeforeSevenPM
  let ?sat = aSaturdayInTheFutureBeforeSevenPM
  have row: "lookupFirstAvailableDay referenceTable (getDay (effectiveNow ?c)) = Some SATURDAY"
    by (simp add: lookupFirstAvailableDay_def referenceTable_def date_defs day_defs example_dates)
  have day: "0 \<le> SATURDAY" "SATURDAY < 7" by (simp_all add: SATURDAY_def)
  have fri: "\<not> (getNumberOfDaysBetweenFirstDateAndSecondDate (effectiveNow ?c) ?fri
                   < NUMBER_OF_DAYS_IN_A_WEEK \<and> getDay (effectiveNow ?c) = getDay ?fri)"
    and sat: "\<not> (getNumberOfDaysBetweenFirstDateAndSecondDate (effectiveNow ?c) ?sat
                   < NUMBER_OF_DAYS_IN_A_WEEK \<and> getDay (effectiveNow ?c) = getDay ?sat)"
    by (simp_all add: date_defs example_dates)
  have admin_fri: "create ?c referenceTable (pickUpCommand ?fri) [fakeProduct] [] True =
        Some (Inr (pickUpOrder ?fri))"
    by (rule create_pickUpCommand_as_admin) (simp_all add: date_defs example_dates)
  have admin_sat: "create ?c referenceTable (pickUpCommand ?sat) [fakeProduct] [] True =
        Some (Inr (pickUpOrder ?sat))"
    by (rule create_pickUpCommand_as_admin) (simp_all add: date_defs example_dates)
  have cmd: "type_cmd (pickUpCommand d) = PICK_UP" "pickUpDate_cmd (pickUpCommand d) = Some d" for d
    by (simp_all add: pickUpCommand_def)
  have occ: "nextOccurrenceOfDay (systemNow ?c) SATURDAY = 22010"
    "dayNumber (effectiveNow ?c) = 22007" "dayNumber ?fri = 22009" "dayNumber ?sat = 22010"
    by (simp_all add: nextOccurrenceOfDay_def date_defs day_defs example_dates)
  have wed: "getDay (effectiveNow ?c) = WEDNESDAY"
    by (simp add: date_defs day_defs example_dates)
  from pick_up_lead_time_rule [OF row day fri, of "pickUpCommand ?fri" "[fakeProduct]" "[]"
         "pickUpOrder ?fri"] admin_fri cmd occ
  have r1: "create ?c referenceTable (pickUpCommand ?fri) [fakeProduct] [] False =
     Some (Inl (hasToBeAtLeastDaysAfterNow ?fri 3))" by simp
  from pick_up_lead_time_rule [OF row day sat, of "pickUpCommand ?sat" "[fakeProduct]" "[]"
         "pickUpOrder ?sat"] admin_sat cmd occ
  have r2: "create ?c referenceTable (pickUpCommand ?sat) [fakeProduct] [] False =
     Some (Inr (pickUpOrder ?sat))" by simp
  let ?m = "clockAt aMondayInTheFutureBeforeSevenPM"
  let ?tue = aTuesdayInTheFutureBeforeSevenPM
  let ?thu = aThursdayInTheFutureBeforeSevenPM
  have row_m: "lookupFirstAvailableDay testedTable (getDay (effectiveNow ?m)) = Some THURSDAY"
    by (simp add: lookupFirstAvailableDay_def testedTable_def date_defs day_defs example_dates)
  have day_m: "0 \<le> THURSDAY" "THURSDAY < 7" by (simp_all add: THURSDAY_def)
  have tue: "\<not> (getNumberOfDaysBetweenFirstDateAndSecondDate (effectiveNow ?m) ?tue
                   < NUMBER_OF_DAYS_IN_A_WEEK \<and> getDay (effectiveNow ?m) = getDay ?tue)"
    and thu: "\<not> (getNumberOfDaysBetweenFirstDateAndSecondDate (effectiveNow ?m) ?thu
                   < NUMBER_OF_DAYS_IN_A_WEEK \<and> getDay (effectiveNow ?m) = getDay ?thu)"
    by (simp_all add: date_defs example_dates)
  have admin_tue: "create ?m testedTable (pickUpCommand ?tue) [fakeProduct] [] True =
        Some (Inr (pickUpOrder ?tue))"
    by (rule create_pickUpCommand_as_admin) (simp_all add: date_defs example_dates)
  have admin_thu: "create ?m testedTable (pickUpCommand ?thu) [fakeProduct] [] True =
        Some (Inr (pickUpOrder ?thu))"
    by (rule create_pickUpCommand_as_admin) (simp_all add: date_defs example_dates)
  have occ_m: "nextOccurrenceOfDay (systemNow ?m) THURSDAY = 22008"
    "dayNumber (effectiveNow ?m) = 22005" "dayNumber ?tue = 22006" "dayNumber ?thu = 22008"
    by (simp_all add: nextOccurrenceOfDay_def date_defs day_defs example_dates)
  from pick_up_lead_time_rule [OF row_m day_m tue, of "pickUpCommand ?tue" "[fakeProduct]" "[]"
         "pickUpOrder ?tue"] admin_tue cmd occ_m
  have r3: "create ?m testedTable (pickUpCommand ?tue) [fakeProduct] [] False =
     Some (Inl (hasToBeAtLeastDaysAfterNow ?tue 3))" by simp
  from pick_up_lead_time_rule [OF row_m day_m thu, of "pickUpCommand ?thu" "[fakeProduct]" "[]"
         "pickUpOrder ?thu"] admin_thu cmd occ_m
  have r4: "create ?m testedTable (pickUpCommand ?thu) [fakeProduct] [] False =
     Some (Inr (pickUpOrder ?thu))" by simp
  show ?thesis using row day wed admin_fri r1 r2 row_m r3 r4 by simp
qed

text \<open>
  C2. A pick-up date strictly fewer than 7 days after the shifted now, on the weekday of the
  shifted now, makes the lead-time check throw
  \<^verbatim>\<open>pick-up date {date} cannot be same day as now\<close>, whatever the table; a non-admin
  creation fails, and it fails with that error when its other validations pass (the same
  command creates an order for an admin). A pick-up date on the same
  weekday, 7 days or more after the shifted now, is not rejected with that error, neither
  by the check nor by the creation.
\<close>

theorem same_weekday_rule:
  "(dayNumber d - dayNumber (effectiveNow clock) < 7 \<and> getDay d = getDay (effectiveNow clock)
    \<longrightarrow>
      assertPickUpDateIsEqualOrAfterTheFirstAvailableDay clock table PICK_UP (Some d) =
        Some (Inl (cannotBeSameDayAsNow d)) \<and>
      (type_cmd command = PICK_UP \<and> pickUpDate_cmd command = Some d \<and>
       create clock table command activeProducts closingPeriods True = Some (Inr order)
       \<longrightarrow>
       create clock table command activeProducts closingPeriods False =
         Some (Inl (cannotBeSameDayAsNow d))) \<and>
      (type_cmd command = PICK_UP \<and> pickUpDate_cmd command = Some d \<longrightarrow>
       (\<exists>e. create clock table command activeProducts closingPeriods False = Some (Inl e)))) \<and>
   (7 \<le> dayNumber d - dayNumber (effectiveNow clock) \<and> getDay d = getDay (effectiveNow clock)
    \<longrightarrow>
      assertPickUpDateIsEqualOrAfterTheFirstAvailableDay clock table PICK_UP (Some d) \<noteq>
        Some (Inl (cannotBeSameDayAsNow d)) \<and>
      (type_cmd command = PICK_UP \<and> pickUpDate_cmd command = Some d \<and>
       create clock table command activeProducts closingPeriods True = Some (Inr order)
       \<longrightarrow>
       create clock table command activeProducts closingPeriods False \<noteq>
         Some (Inl (cannotBeSameDayAsNow d))))"
proof (intro conjI impI)
  assume a: "dayNumber d - dayNumber (effectiveNow clock) < 7 \<and>
             getDay d = getDay (effectiveNow clock)"
  then show rejected: "assertPickUpDateIsEqualOrAfterTheFirstAvailableDay clock table PICK_UP (Some d) =
        Some (Inl (cannotBeSameDayAsNow d))"
    by (intro stage_same_day)
       (simp_all add: getNumberOfDaysBetweenFirstDateAndSecondDate_def NUMBER_OF_DAYS_IN_A_WEEK_def)
  assume c: "type_cmd command = PICK_UP \<and> pickUpDate_cmd command = Some d \<and>
       create clock table command activeProducts closingPeriods True = Some (Inr order)"
  then have "type_cmd command \<noteq> RESERVATION" by simp
  from create_not_admin [OF this] c rejected
  show "create clock table command activeProducts closingPeriods False =
         Some (Inl (cannotBeSameDayAsNow d))" by simp
next
  assume "dayNumber d - dayNumber (effectiveNow clock) < 7 \<and>
          getDay d = getDay (effectiveNow clock)"
  then have "assertPickUpDateIsEqualOrAfterTheFirstAvailableDay clock table PICK_UP (Some d) =
        Some (Inl (cannotBeSameDayAsNow d))"
    by (intro stage_same_day)
       (simp_all add: getNumberOfDaysBetweenFirstDateAndSecondDate_def NUMBER_OF_DAYS_IN_A_WEEK_def)
  moreover assume "type_cmd command = PICK_UP \<and> pickUpDate_cmd command = Some d"
  ultimately have "assertPickUpDateIsEqualOrAfterTheFirstAvailableDay clock table
      (type_cmd command) (pickUpDate_cmd command) = Some (Inl (cannotBeSameDayAsNow d))"
    by simp
  then show "\<exists>e. create clock table command activeProducts closingPeriods False = Some (Inl e)"
    by (rule create_fails_with_pick_up_rule)
next
  assume a: "7 \<le> dayNumber d - dayNumber (effectiveNow clock) \<and>
             getDay d = getDay (effectiveNow clock)"
  then have far: "\<not> (getNumberOfDaysBetweenFirstDateAndSecondDate (effectiveNow clock) d
                 < NUMBER_OF_DAYS_IN_A_WEEK \<and>
               getDay (effectiveNow clock) = getDay d)"
    by (simp add: getNumberOfDaysBetweenFirstDateAndSecondDate_def NUMBER_OF_DAYS_IN_A_WEEK_def)
  show passed: "assertPickUpDateIsEqualOrAfterTheFirstAvailableDay clock table PICK_UP (Some d) \<noteq>
        Some (Inl (cannotBeSameDayAsNow d))"
    by (rule stage_not_same_day_error [OF far])
  assume c: "type_cmd command = PICK_UP \<and> pickUpDate_cmd command = Some d \<and>
       create clock table command activeProducts closingPeriods True = Some (Inr order)"
  then have "type_cmd command \<noteq> RESERVATION" by simp
  from create_not_admin [OF this] c passed
  show "create clock table command activeProducts closingPeriods False \<noteq>
         Some (Inl (cannotBeSameDayAsNow d))"
    by (auto simp add: delivery_rule_skipped split: option.splits sum.splits)
qed

theorem same_weekday_rule_witness:
  "dayNumber aTuesdayInTheFutureBeforeSevenPM
     - dayNumber (effectiveNow (clockAt aTuesdayInTheFutureBeforeSevenPM)) < 7 \<and>
   getDay aTuesdayInTheFutureBeforeSevenPM =
     getDay (effectiveNow (clockAt aTuesdayInTheFutureBeforeSevenPM)) \<and>
   create (clockAt aTuesdayInTheFutureBeforeSevenPM) referenceTable
     (pickUpCommand aTuesdayInTheFutureBeforeSevenPM) [fakeProduct] [] True =
     Some (Inr (pickUpOrder aTuesdayInTheFutureBeforeSevenPM)) \<and>
   create (clockAt aTuesdayInTheFutureBeforeSevenPM) referenceTable
     (pickUpCommand aTuesdayInTheFutureBeforeSevenPM) [fakeProduct] [] False =
     Some (Inl (cannotBeSameDayAsNow aTuesdayInTheFutureBeforeSevenPM)) \<and>
   7 \<le> dayNumber aTuesdayInTheFutureTheWeekAfter
     - dayNumber (effectiveNow (clockAt aTuesdayInTheFutureBeforeSevenPM)) \<and>
   getDay aTuesdayInTheFutureTheWeekAfter =
     getDay (effectiveNow (clockAt aTuesdayInTheFutureBeforeSevenPM)) \<and>
   create (clockAt aTuesdayInTheFutureBeforeSevenPM) referenceTable
     (pickUpCommand aTuesdayInTheFutureTheWeekAfter) [fakeProduct] [] True =
     Some (Inr (pickUpOrder aTuesdayInTheFutureTheWeekAfter)) \<and>
   create (clockAt aTuesdayInTheFutureBeforeSevenPM) referenceTable
     (pickUpCommand aTuesdayInTheFutureTheWeekAfter) [fakeProduct] [] False \<noteq>
     Some (Inl (cannotBeSameDayAsNow aTuesdayInTheFutureTheWeekAfter))"
proof -
  let ?c = "clockAt aTuesdayInTheFutureBeforeSevenPM"
  let ?tue = aTuesdayInTheFutureBeforeSevenPM
  let ?next = aTuesdayInTheFutureTheWeekAfter
  have near: "dayNumber ?tue - dayNumber (effectiveNow ?c) < 7 \<and>
              getDay ?tue = getDay (effectiveNow ?c)"
    and far: "7 \<le> dayNumber ?next - dayNumber (effectiveNow ?c) \<and>
              getDay ?next = getDay (effectiveNow ?c)"
    by (simp_all add: date_defs example_dates)
  have admin_tue: "create ?c referenceTable (pickUpCommand ?tue) [fakeProduct] [] True =
        Some (Inr (pickUpOrder ?tue))"
    by (rule create_pickUpCommand_as_admin) (simp_all add: date_defs example_dates)
  have admin_next: "create ?c referenceTable (pickUpCommand ?next) [fakeProduct] [] True =
        Some (Inr (pickUpOrder ?next))"
    by (rule create_pickUpCommand_as_admin) (simp_all add: date_defs example_dates)
  have cmd: "type_cmd (pickUpCommand d) = PICK_UP" "pickUpDate_cmd (pickUpCommand d) = Some d" for d
    by (simp_all add: pickUpCommand_def)
  from same_weekday_rule [of ?tue ?c referenceTable "pickUpCommand ?tue" "[fakeProduct]" "[]"
         "pickUpOrder ?tue"] near admin_tue cmd
  have r1: "create ?c referenceTable (pickUpCommand ?tue) [fakeProduct] [] False =
     Some (Inl (cannotBeSameDayAsNow ?tue))" by blast
  from same_weekday_rule [of ?next ?c referenceTable "pickUpCommand ?next" "[fakeProduct]" "[]"
         "pickUpOrder ?next"] far admin_next cmd
  have r2: "create ?c referenceTable (pickUpCommand ?next) [fakeProduct] [] False \<noteq>
     Some (Inl (cannotBeSameDayAsNow ?next))" by blast
  show ?thesis using near far admin_tue admin_next r1 r2 by blast
qed

text \<open>
  C3. The same-week cutoff check of a delivery throws
  \<^verbatim>\<open>delivery date {date} has to be one of the next available Thursday\<close> exactly when the
  delivery date is strictly fewer than 7 days after now, the weekday index of now is at most
  that of the delivery date, and now is after Tuesday or on Tuesday from 19:00 on; otherwise
  it passes. A non-admin creation of a delivery whose other validations pass (the same
  command creates an order for an admin) fails with that error in the first case and returns
  the order in the second, whatever the table; in the first case the creation fails whatever
  the other validations say.
\<close>

theorem delivery_same_week_cutoff_rule:
  "assertDeliveryDateIsEqualOrAfterTheFirstAvailableDay clock DELIVERY (Some d) =
     (if dayNumber d - dayNumber (easternNow clock) < 7 \<and>
         getDay (easternNow clock) \<le> getDay d \<and>
         (getDay (easternNow clock) > TUESDAY \<or>
          (getDay (easternNow clock) = TUESDAY \<and> getHours (easternNow clock) \<ge> 19))
      then Inl (hasToBeOneOfTheNextAvailableThursday d) else Inr ()) \<and>
   (type_cmd command = DELIVERY \<and> deliveryDate_cmd command = Some d \<and>
    create clock table command activeProducts closingPeriods True = Some (Inr order)
    \<longrightarrow>
    create clock table command activeProducts closingPeriods False =
      Some (if dayNumber d - dayNumber (easternNow clock) < 7 \<and>
               getDay (easternNow clock) \<le> getDay d \<and>
               (getDay (easternNow clock) > TUESDAY \<or>
                (getDay (easternNow clock) = TUESDAY \<and> getHours (easternNow clock) \<ge> 19))
            then Inl (hasToBeOneOfTheNextAvailableThursday d) else Inr order)) \<and>
   (type_cmd command = DELIVERY \<and> deliveryDate_cmd command = Some d \<and>
    dayNumber d - dayNumber (easternNow clock) < 7 \<and>
    getDay (easternNow clock) \<le> getDay d \<and>
    (getDay (easternNow clock) > TUESDAY \<or>
     (getDay (easternNow clock) = TUESDAY \<and> getHours (easternNow clock) \<ge> 19))
    \<longrightarrow>
    (\<exists>e. create clock table command activeProducts closingPeriods False = Some (Inl e)))"
proof (intro conjI impI)
  show stage: "assertDeliveryDateIsEqualOrAfterTheFirstAvailableDay clock DELIVERY (Some d) =
     (if dayNumber d - dayNumber (easternNow clock) < 7 \<and>
         getDay (easternNow clock) \<le> getDay d \<and>
         (getDay (easternNow clock) > TUESDAY \<or>
          (getDay (easternNow clock) = TUESDAY \<and> getHours (easternNow clock) \<ge> 19))
      then Inl (hasToBeOneOfTheNextAvailableThursday d) else Inr ())"
    by (simp add: assertDeliveryDateIsEqualOrAfterTheFirstAvailableDay_def Let_def
        getNumberOfDaysBetweenFirstDateAndSecondDate_def NUMBER_OF_DAYS_IN_A_WEEK_def
        MAXIMUM_DAY_FOR_DELIVERY_SAME_WEEK_def MAXIMUM_HOUR_FOR_DELIVERY_SAME_WEEK_def)
  assume c: "type_cmd command = DELIVERY \<and> deliveryDate_cmd command = Some d \<and>
    create clock table command activeProducts closingPeriods True = Some (Inr order)"
  then have "type_cmd command \<noteq> RESERVATION" by simp
  from create_not_admin [OF this] c
  show "create clock table command activeProducts closingPeriods False =
      Some (if dayNumber d - dayNumber (easternNow clock) < 7 \<and>
               getDay (easternNow clock) \<le> getDay d \<and>
               (getDay (easternNow clock) > TUESDAY \<or>
                (getDay (easternNow clock) = TUESDAY \<and> getHours (easternNow clock) \<ge> 19))
            then Inl (hasToBeOneOfTheNextAvailableThursday d) else Inr order)"
    by (simp add: pick_up_rule_skipped stage)
next
  assume a: "type_cmd command = DELIVERY \<and> deliveryDate_cmd command = Some d \<and>
    dayNumber d - dayNumber (easternNow clock) < 7 \<and>
    getDay (easternNow clock) \<le> getDay d \<and>
    (getDay (easternNow clock) > TUESDAY \<or>
     (getDay (easternNow clock) = TUESDAY \<and> getHours (easternNow clock) \<ge> 19))"
  then have "type_cmd command \<noteq> PICK_UP" by simp
  moreover from a
  have "assertDeliveryDateIsEqualOrAfterTheFirstAvailableDay clock (type_cmd command)
          (deliveryDate_cmd command) = Inl (hasToBeOneOfTheNextAvailableThursday d)"
    by (simp add: assertDeliveryDateIsEqualOrAfterTheFirstAvailableDay_def Let_def
        getNumberOfDaysBetweenFirstDateAndSecondDate_def NUMBER_OF_DAYS_IN_A_WEEK_def
        MAXIMUM_DAY_FOR_DELIVERY_SAME_WEEK_def MAXIMUM_HOUR_FOR_DELIVERY_SAME_WEEK_def)
  ultimately
  show "\<exists>e. create clock table command activeProducts closingPeriods False = Some (Inl e)"
    by (rule create_fails_with_delivery_rule)
qed

theorem delivery_same_week_cutoff_rule_witness:
  "create (clockAt tuesdayAtSevenPM) referenceTable
     (deliveryCommand firstThursdayAfterTuesday) [fakeProduct] [] True =
     Some (Inr (deliveryOrder firstThursdayAfterTuesday)) \<and>
   create (clockAt tuesdayAtSevenPM) referenceTable
     (deliveryCommand firstThursdayAfterTuesday) [fakeProduct] [] False =
     Some (Inl (hasToBeOneOfTheNextAvailableThursday firstThursdayAfterTuesday)) \<and>
   create (clockAt tuesdayAtSevenPM) referenceTable
     (deliveryCommand secondThursdayAfterTuesday) [fakeProduct] [] False =
     Some (Inr (deliveryOrder secondThursdayAfterTuesday)) \<and>
   create (clockAt tuesdayBeforeSevenPM) referenceTable
     (deliveryCommand firstThursdayAfterTuesday) [fakeProduct] [] False =
     Some (Inr (deliveryOrder firstThursdayAfterTuesday))"
proof -
  have admin: "create (clockAt tuesdayAtSevenPM) referenceTable
          (deliveryCommand firstThursdayAfterTuesday) [fakeProduct] [] True =
        Some (Inr (deliveryOrder firstThursdayAfterTuesday))"
      "create (clockAt tuesdayAtSevenPM) referenceTable
          (deliveryCommand secondThursdayAfterTuesday) [fakeProduct] [] True =
        Some (Inr (deliveryOrder secondThursdayAfterTuesday))"
      "create (clockAt tuesdayBeforeSevenPM) referenceTable
          (deliveryCommand firstThursdayAfterTuesday) [fakeProduct] [] True =
        Some (Inr (deliveryOrder firstThursdayAfterTuesday))"
    by (rule create_deliveryCommand_as_admin, simp_all add: date_defs example_dates)+
  have cmd: "type_cmd (deliveryCommand d) = DELIVERY"
    "deliveryDate_cmd (deliveryCommand d) = Some d" for d
    by (simp_all add: deliveryCommand_def newOrderCommand_def)
  from delivery_same_week_cutoff_rule [of "clockAt tuesdayAtSevenPM" firstThursdayAfterTuesday
         "deliveryCommand firstThursdayAfterTuesday" referenceTable "[fakeProduct]" "[]"
         "deliveryOrder firstThursdayAfterTuesday"] admin(1) cmd
  have r1: "create (clockAt tuesdayAtSevenPM) referenceTable
     (deliveryCommand firstThursdayAfterTuesday) [fakeProduct] [] False =
     Some (Inl (hasToBeOneOfTheNextAvailableThursday firstThursdayAfterTuesday))"
    by (simp add: date_defs example_dates day_defs)
  from delivery_same_week_cutoff_rule [of "clockAt tuesdayAtSevenPM" secondThursdayAfterTuesday
         "deliveryCommand secondThursdayAfterTuesday" referenceTable "[fakeProduct]" "[]"
         "deliveryOrder secondThursdayAfterTuesday"] admin(2) cmd
  have r2: "create (clockAt tuesdayAtSevenPM) referenceTable
     (deliveryCommand secondThursdayAfterTuesday) [fakeProduct] [] False =
     Some (Inr (deliveryOrder secondThursdayAfterTuesday))"
    by (simp add: date_defs example_dates day_defs)
  from delivery_same_week_cutoff_rule [of "clockAt tuesdayBeforeSevenPM" firstThursdayAfterTuesday
         "deliveryCommand firstThursdayAfterTuesday" referenceTable "[fakeProduct]" "[]"
         "deliveryOrder firstThursdayAfterTuesday"] admin(3) cmd
  have r3: "create (clockAt tuesdayBeforeSevenPM) referenceTable
     (deliveryCommand firstThursdayAfterTuesday) [fakeProduct] [] False =
     Some (Inr (deliveryOrder firstThursdayAfterTuesday))"
    by (simp add: date_defs example_dates day_defs)
  show ?thesis using admin(1) r1 r2 r3 by simp
qed

section \<open>Validation of the products\<close>

text \<open>
  C8. For a command, of a creation or of an update, whose product list is not empty and
  whose quantities are all at least 1, \<^verbatim>\<open>bindProductSelection\<close> succeeds if and only if
  every product id of the command is the id of an active product; the order then holds, in
  the order of the command, the active product of each id with the quantity of the command.
  When some id is not found it throws \<^verbatim>\<open>product with id {id} not found\<close> for the first such
  id. An empty product list throws \<^verbatim>\<open>an order must have at least one product\<close>.
\<close>

theorem product_validation:
  "(products_cmd command \<noteq> [] \<and> (\<forall>p \<in> set (products_cmd command). 1 \<le> quantity_cmd p) \<longrightarrow>
      ((\<exists>this'. bindProductSelection this command activeProducts = Inr this') \<longleftrightarrow>
       (\<forall>p \<in> set (products_cmd command). \<exists>a \<in> set activeProducts. product_id a = productId p)) \<and>
      (\<forall>this'. bindProductSelection this command activeProducts = Inr this' \<longrightarrow>
         map (\<lambda>x. (product_id (product x), quantity x)) (products this') =
           map (\<lambda>p. (productId p, quantity_cmd p)) (products_cmd command) \<and>
         product ` set (products this') \<subseteq> set activeProducts) \<and>
      (\<forall>p. find (\<lambda>p. \<not> (\<exists>a \<in> set activeProducts. product_id a = productId p))
              (products_cmd command) = Some p \<longrightarrow>
         bindProductSelection this command activeProducts =
           Inl (InvalidOrderError
                 [Txt ''product with id '', Num (productId p), Txt '' not found'']))) \<and>
   (products_cmd command = [] \<longrightarrow>
      bindProductSelection this command activeProducts =
        Inl (InvalidOrderError [Txt ''an order must have at least one product'']))"
proof -
  let ?resolves = "\<lambda>p. \<exists>a \<in> set activeProducts. product_id a = productId p"
  let ?notFound = "\<lambda>p. Inl (InvalidOrderError
                 [Txt ''product with id '', Num (productId p), Txt '' not found''])"
  have valid:
    "((\<exists>this'. bindProductSelection this command activeProducts = Inr this') \<longleftrightarrow>
       (\<forall>p \<in> set (products_cmd command). ?resolves p)) \<and>
      (\<forall>this'. bindProductSelection this command activeProducts = Inr this' \<longrightarrow>
         map (\<lambda>x. (product_id (product x), quantity x)) (products this') =
           map (\<lambda>p. (productId p, quantity_cmd p)) (products_cmd command) \<and>
         product ` set (products this') \<subseteq> set activeProducts) \<and>
      (\<forall>p. find (\<lambda>p. \<not> ?resolves p) (products_cmd command) = Some p \<longrightarrow>
         bindProductSelection this command activeProducts = ?notFound p)"
    if ok: "products_cmd command \<noteq> [] \<and>
            (\<forall>p \<in> set (products_cmd command). 1 \<le> quantity_cmd p)"
  proof -
    from ok have "assertProductsAreValid (products_cmd command) = Inr ()"
      by (simp add: assertProductsAreValid_Inr)
    note bind = bindProductSelection_valid [OF this, of this activeProducts]
    have a: "(\<exists>this'. bindProductSelection this command activeProducts = Inr this') \<longleftrightarrow>
       (\<forall>p \<in> set (products_cmd command). ?resolves p)"
      unfolding bind mapToProductWithQuantity_Inr [symmetric]
      by (cases "mapToProductWithQuantity (products_cmd command) activeProducts") simp_all
    have b: "map (\<lambda>x. (product_id (product x), quantity x)) (products this') =
           map (\<lambda>p. (productId p, quantity_cmd p)) (products_cmd command) \<and>
         product ` set (products this') \<subseteq> set activeProducts"
      if "bindProductSelection this command activeProducts = Inr this'" for this'
    proof -
      from that obtain xs
        where xs: "mapToProductWithQuantity (products_cmd command) activeProducts = Inr xs"
          and this': "this' = this\<lparr>products := xs\<rparr>"
        unfolding bind by (auto simp add: andThen_eq_Inr)
      from mapToProductWithQuantity_fields [OF xs] this' show ?thesis by simp
    qed
    have c: "bindProductSelection this command activeProducts = ?notFound p"
      if "find (\<lambda>p. \<not> ?resolves p) (products_cmd command) = Some p" for p
      using mapToProductWithQuantity_first_unresolved [OF that] unfolding bind by simp
    from a b c show ?thesis by blast
  qed
  have empty: "bindProductSelection this command activeProducts =
        Inl (InvalidOrderError [Txt ''an order must have at least one product''])"
    if "products_cmd command = []"
    using that by (simp add: bindProductSelection_def assertProductsAreValid_def)
  from valid empty show ?thesis by blast
qed

theorem product_validation_witness:
  "products_cmd newOrderCommand \<noteq> [] \<and>
   list_all (\<lambda>p. 1 \<le> quantity_cmd p) (products_cmd newOrderCommand) \<and>
   list_all (\<lambda>p. list_ex (\<lambda>a. product_id a = productId p) [fakeProduct])
     (products_cmd newOrderCommand) \<and>
   (\<exists>this'. bindProductSelection newObject newOrderCommand [fakeProduct] = Inr this') \<and>
   find (\<lambda>p. \<not> (\<exists>a \<in> set []. product_id a = productId p)) (products_cmd newOrderCommand)
     = Some \<lparr>productId = 42, quantity_cmd = 1\<rparr> \<and>
   bindProductSelection newObject newOrderCommand [] =
     Inl (InvalidOrderError [Txt ''product with id '', Num 42, Txt '' not found'']) \<and>
   products_cmd (newOrderCommand\<lparr>products_cmd := []\<rparr>) = [] \<and>
   bindProductSelection newObject (newOrderCommand\<lparr>products_cmd := []\<rparr>) [fakeProduct] =
     Inl (InvalidOrderError [Txt ''an order must have at least one product''])"
proof -
  have ps: "products_cmd newOrderCommand = [\<lparr>productId = 42, quantity_cmd = 1\<rparr>]"
    by (simp add: newOrderCommand_def)
  have ok: "products_cmd newOrderCommand \<noteq> [] \<and>
            (\<forall>p \<in> set (products_cmd newOrderCommand). 1 \<le> quantity_cmd p)"
    by (simp add: ps)
  have res: "\<forall>p \<in> set (products_cmd newOrderCommand).
       \<exists>a \<in> set [fakeProduct]. product_id a = productId p"
    by (simp add: ps fakeProduct_def)
  have unres: "find (\<lambda>p. \<not> (\<exists>a \<in> set []. product_id a = productId p))
      (products_cmd newOrderCommand) = Some \<lparr>productId = 42, quantity_cmd = 1\<rparr>"
    by (simp add: ps)
  have empty: "products_cmd (newOrderCommand\<lparr>products_cmd := []\<rparr>) = []" by simp
  from product_validation [of newOrderCommand newObject "[fakeProduct]"] ok res
  have r1: "\<exists>this'. bindProductSelection newObject newOrderCommand [fakeProduct] = Inr this'"
    by blast
  from product_validation [of newOrderCommand newObject "[]"] ok unres
  have r2: "bindProductSelection newObject newOrderCommand [] =
     Inl (InvalidOrderError [Txt ''product with id '', Num 42, Txt '' not found''])"
    by simp
  from product_validation [of "newOrderCommand\<lparr>products_cmd := []\<rparr>" newObject "[fakeProduct]"]
    empty
  have r3: "bindProductSelection newObject (newOrderCommand\<lparr>products_cmd := []\<rparr>) [fakeProduct] =
     Inl (InvalidOrderError [Txt ''an order must have at least one product''])"
    by blast
  have listed:
    "list_all (\<lambda>p. 1 \<le> quantity_cmd p) (products_cmd newOrderCommand)"
    "list_all (\<lambda>p. list_ex (\<lambda>a. product_id a = productId p) [fakeProduct])
       (products_cmd newOrderCommand)"
    by (simp_all add: ps fakeProduct_def)
  show ?thesis using ok listed unres empty r1 r2 r3 by blast
qed

section \<open>Creation of a closing period\<close>

text \<open>
  C9. \<^verbatim>\<open>ClosingPeriod.factory.create\<close> throws an \<^verbatim>\<open>InvalidClosingPeriodError\<close> when the
  start date or the end date is absent, when one of them is on a calendar day strictly
  before today, and when the end date is earlier than the start date (by \<^verbatim>\<open>getTime\<close>).
  When both dates are on today's calendar day or later, at any hour, and the end date is not
  earlier than the start date, it returns the closing period with the two dates of the
  command. Today is the calendar day of \<^verbatim>\<open>new Date()\<close>.
\<close>

theorem closing_period_creation:
  "(startDate_cmd command = None \<or> endDate_cmd command = None \<or>
    (\<exists>s e. startDate_cmd command = Some s \<and> endDate_cmd command = Some e \<and>
           (dayNumber s < dayNumber (systemNow clock) \<or>
            dayNumber e < dayNumber (systemNow clock) \<or>
            getTime e < getTime s))
    \<longrightarrow> (\<exists>m. createClosingPeriod clock command = Inl (InvalidClosingPeriodError m))) \<and>
   (\<forall>s e. startDate_cmd command = Some s \<and> endDate_cmd command = Some e \<and>
          dayNumber (systemNow clock) \<le> dayNumber s \<and>
          dayNumber (systemNow clock) \<le> dayNumber e \<and>
          getTime s \<le> getTime e
          \<longrightarrow> createClosingPeriod clock command =
                Inr \<lparr>closingPeriod_id = None, startDate = s, endDate = e\<rparr>)"
proof (intro conjI impI allI)
  assume "startDate_cmd command = None \<or> endDate_cmd command = None \<or>
    (\<exists>s e. startDate_cmd command = Some s \<and> endDate_cmd command = Some e \<and>
           (dayNumber s < dayNumber (systemNow clock) \<or>
            dayNumber e < dayNumber (systemNow clock) \<or>
            getTime e < getTime s))"
  then consider (absent) "startDate_cmd command = None \<or> endDate_cmd command = None"
    | (bad) s e where "startDate_cmd command = Some s" "endDate_cmd command = Some e"
        "dayNumber s < dayNumber (systemNow clock) \<or>
         dayNumber e < dayNumber (systemNow clock) \<or> getTime e < getTime s"
    by auto
  then show "\<exists>m. createClosingPeriod clock command = Inl (InvalidClosingPeriodError m)"
  proof cases
    case absent
    then show ?thesis by (rule createClosingPeriod_absent)
  next
    case bad
    then show ?thesis by (auto simp add: createClosingPeriod_Some)
  qed
next
  fix s e
  assume "startDate_cmd command = Some s \<and> endDate_cmd command = Some e \<and>
          dayNumber (systemNow clock) \<le> dayNumber s \<and>
          dayNumber (systemNow clock) \<le> dayNumber e \<and>
          getTime s \<le> getTime e"
  then show "createClosingPeriod clock command =
                Inr \<lparr>closingPeriod_id = None, startDate = s, endDate = e\<rparr>"
    by (simp add: createClosingPeriod_Some)
qed

theorem closing_period_creation_witness:
  "dayNumber (systemNow (clockAt (dateOf 18416 4 41 20))) \<le> dayNumber (dateOf 18416 1 0 0) \<and>
   dayNumber (systemNow (clockAt (dateOf 18416 4 41 20))) \<le> dayNumber (dateOf 18417 0 0 0) \<and>
   getTime (dateOf 18416 1 0 0) \<le> getTime (dateOf 18417 0 0 0) \<and>
   createClosingPeriod (clockAt (dateOf 18416 4 41 20))
     \<lparr>startDate_cmd = Some (dateOf 18416 1 0 0), endDate_cmd = Some (dateOf 18417 0 0 0)\<rparr> =
     Inr \<lparr>closingPeriod_id = None, startDate = dateOf 18416 1 0 0,
          endDate = dateOf 18417 0 0 0\<rparr> \<and>
   getTime (dateOf 18417 0 0 0) < getTime (dateOf 18417 12 0 0) \<and>
   (\<exists>m. createClosingPeriod (clockAt (dateOf 18416 4 41 20))
          \<lparr>startDate_cmd = Some (dateOf 18417 12 0 0), endDate_cmd = Some (dateOf 18417 0 0 0)\<rparr>
        = Inl (InvalidClosingPeriodError m)) \<and>
   dayNumber (dateOf 18415 23 59 59) < dayNumber (systemNow (clockAt (dateOf 18416 4 41 20))) \<and>
   (\<exists>m. createClosingPeriod (clockAt (dateOf 18416 4 41 20))
          \<lparr>startDate_cmd = Some (dateOf 18415 23 59 59), endDate_cmd = Some (dateOf 18417 0 0 0)\<rparr>
        = Inl (InvalidClosingPeriodError m)) \<and>
   (\<exists>m. createClosingPeriod (clockAt (dateOf 18416 4 41 20))
          \<lparr>startDate_cmd = None, endDate_cmd = Some (dateOf 18417 0 0 0)\<rparr>
        = Inl (InvalidClosingPeriodError m))"
proof -
  let ?c = "clockAt (dateOf 18416 4 41 20)"
  let ?ok = "\<lparr>startDate_cmd = Some (dateOf 18416 1 0 0), endDate_cmd = Some (dateOf 18417 0 0 0)\<rparr>"
  let ?rev = "\<lparr>startDate_cmd = Some (dateOf 18417 12 0 0), endDate_cmd = Some (dateOf 18417 0 0 0)\<rparr>"
  let ?past = "\<lparr>startDate_cmd = Some (dateOf 18415 23 59 59), endDate_cmd = Some (dateOf 18417 0 0 0)\<rparr>"
  let ?none = "\<lparr>startDate_cmd = None, endDate_cmd = Some (dateOf 18417 0 0 0)\<rparr>"
  have f: "dayNumber (systemNow ?c) \<le> dayNumber (dateOf 18416 1 0 0)"
    "dayNumber (systemNow ?c) \<le> dayNumber (dateOf 18417 0 0 0)"
    "getTime (dateOf 18416 1 0 0) \<le> getTime (dateOf 18417 0 0 0)"
    "getTime (dateOf 18417 0 0 0) < getTime (dateOf 18417 12 0 0)"
    "dayNumber (dateOf 18415 23 59 59) < dayNumber (systemNow ?c)"
    by (simp_all add: date_defs)
  from closing_period_creation [of ?ok ?c] f
  have r1: "createClosingPeriod ?c ?ok =
     Inr \<lparr>closingPeriod_id = None, startDate = dateOf 18416 1 0 0,
          endDate = dateOf 18417 0 0 0\<rparr>" by simp
  from closing_period_creation [of ?rev ?c] f
  have r2: "\<exists>m. createClosingPeriod ?c ?rev = Inl (InvalidClosingPeriodError m)" by simp
  from closing_period_creation [of ?past ?c] f
  have r3: "\<exists>m. createClosingPeriod ?c ?past = Inl (InvalidClosingPeriodError m)" by simp
  from closing_period_creation [of ?none ?c]
  have r4: "\<exists>m. createClosingPeriod ?c ?none = Inl (InvalidClosingPeriodError m)" by simp
  show ?thesis using f r1 r2 r3 r4 by blast
qed

section \<open>The order after a creation and after an update\<close>

text \<open>
  C4. An order returned by \<^verbatim>\<open>create\<close>, and an order that \<^verbatim>\<open>updateWith\<close> has updated
  without throwing, has the type of the command, and exactly the date field of that type is
  populated: the pick-up date for a pick-up, the delivery date and a non-empty delivery
  address for a delivery, the reservation date for a reservation; the other date fields,
  and the delivery address when the type is not delivery, are null. This holds for every
  command, clock, table, product list, closing-period list and admin flag, and for every
  state of the order before the update.
\<close>

theorem date_field_of_the_type:
  "(create clock table command activeProducts closingPeriods isAdmin = Some (Inr order) \<longrightarrow>
      dateFieldsMatchType order \<and> orderType order = type_cmd command) \<and>
   (updateWith clock this updateCommand activeProducts closingPeriods = (None, updated) \<longrightarrow>
      dateFieldsMatchType updated \<and> orderType updated = type_cmd updateCommand)"
proof (intro conjI impI)
  assume "create clock table command activeProducts closingPeriods isAdmin = Some (Inr order)"
  from create_Inr [OF this] obtain this2 this3
    where "bindOrderTypeSelection clock this2 command closingPeriods isAdmin = Inr this3"
      and "order = this3\<lparr>note_order := note_cmd command\<rparr>" by blast
  with bindOrderTypeSelection_Inr [of clock this2 command closingPeriods isAdmin this3]
  show "dateFieldsMatchType order" "orderType order = type_cmd command"
    by (auto simp add: dateFieldsMatchType_def)
next
  assume "updateWith clock this updateCommand activeProducts closingPeriods = (None, updated)"
  from updateWith_None [OF this] obtain this1 this2
    where "bindOrderTypeSelection clock this1 updateCommand closingPeriods True = Inr this2"
      and "updated = this2\<lparr>note_order := note_cmd updateCommand\<rparr>" by blast
  with bindOrderTypeSelection_Inr [of clock this1 updateCommand closingPeriods True this2]
  show "dateFieldsMatchType updated" "orderType updated = type_cmd updateCommand"
    by (auto simp add: dateFieldsMatchType_def)
qed


theorem date_field_of_the_type_witness:
  "create (clockAt now) referenceTable
     (pickUpCommand aSaturdayInTheFutureBeforeSevenPM) [fakeProduct] [] True =
     Some (Inr (pickUpOrder aSaturdayInTheFutureBeforeSevenPM)) \<and>
   dateFieldsMatchType (pickUpOrder aSaturdayInTheFutureBeforeSevenPM) \<and>
   orderType (pickUpOrder aSaturdayInTheFutureBeforeSevenPM) = PICK_UP \<and>
   updateWith (clockAt now) existingOrder updateOrderCommand [fakeProduct] [] =
     (None, updatedOrder) \<and>
   dateFieldsMatchType updatedOrder \<and> orderType updatedOrder = DELIVERY \<and>
   \<not> dateFieldsMatchType existingOrder"
proof -
  have created: "create (clockAt now) referenceTable
     (pickUpCommand aSaturdayInTheFutureBeforeSevenPM) [fakeProduct] [] True =
     Some (Inr (pickUpOrder aSaturdayInTheFutureBeforeSevenPM))"
    by (rule create_pickUpCommand_as_admin) (simp_all add: date_defs example_dates now_def)
  have before: "\<not> dateFieldsMatchType existingOrder"
    by (simp add: dateFieldsMatchType_def existingOrder_def PICK_UP_def DELIVERY_def
        RESERVATION_def)
  have types: "type_cmd (pickUpCommand aSaturdayInTheFutureBeforeSevenPM) = PICK_UP"
    "type_cmd updateOrderCommand = DELIVERY"
    by (simp_all add: pickUpCommand_def updateOrderCommand_def)
  from date_field_of_the_type
    [of "clockAt now" referenceTable
        "pickUpCommand aSaturdayInTheFutureBeforeSevenPM" "[fakeProduct]" "[]" True
        "pickUpOrder aSaturdayInTheFutureBeforeSevenPM"
        existingOrder updateOrderCommand updatedOrder]
    created updateWith_example types before
  show ?thesis by simp
qed

section \<open>Failure and success of updateWith\<close>

text \<open>
  C5, as the spec states it, fails: \<^verbatim>\<open>updateWith\<close> writes the products before it validates
  the type and the dates. On the order and the command of the tests, with an empty delivery
  address, it throws \<^verbatim>\<open>a delivery address has to be defined when order type is delivery\<close>
  and leaves the order with the products of the command.
\<close>

theorem updateWith_not_atomic_counterexample:
  "updateWith (clockAt now) existingOrder
     (updateOrderCommand\<lparr>deliveryAddress_cmd := Some []\<rparr>) [fakeProduct] [] =
     (Some (InvalidOrderError
             [Txt ''a delivery address has to be defined when order type is delivery'']),
      existingOrder\<lparr>products := [\<lparr>product = fakeProduct, quantity = 1\<rparr>]\<rparr>) \<and>
   products existingOrder \<noteq> [\<lparr>product = fakeProduct, quantity = 1\<rparr>]"
  by (simp add: updateWith_def bindProductSelection_def bindOrderTypeSelection_def assert_defs
      existingOrder_def updateOrderCommand_def fakeProduct_def now_def
      isFirstDateBeforeSecondDateIgnoringHours_def date_defs day_defs Let_def
      PICK_UP_def DELIVERY_def RESERVATION_def)

text \<open>
  C5, amended. When \<^verbatim>\<open>updateWith\<close> throws, every field of the order other than the
  products is unchanged. On a mismatched order id, which throws
  \<^verbatim>\<open>existing order id {id} does not match command order id {id}\<close>, and on a failure of
  the validation of the products, the products are unchanged too. When the order id matches
  and the products are valid, a failure of the validation of the type or of the dates leaves
  the order with the resolved products of the command in place of its own, and throws the
  error of that validation; an order that a failed call has changed is such an order.
\<close>

theorem updateWith_failure:
  "(order_id this \<noteq> Some (orderId command) \<longrightarrow>
      updateWith clock this command activeProducts closingPeriods =
        (Some (InvalidOrderError
                [Txt ''existing order id '', OptNum (order_id this),
                 Txt '' does not match command order id '', Num (orderId command)]),
         this)) \<and>
   (\<forall>e. order_id this = Some (orderId command) \<and>
        bindProductSelection this command activeProducts = Inl e \<longrightarrow>
      updateWith clock this command activeProducts closingPeriods = (Some e, this)) \<and>
   (\<forall>e this'. updateWith clock this command activeProducts closingPeriods = (Some e, this')
      \<longrightarrow> this' = this\<lparr>products := products this'\<rparr>) \<and>
   (\<forall>e this'. updateWith clock this command activeProducts closingPeriods = (Some e, this') \<and>
        this' \<noteq> this \<longrightarrow>
      (\<exists>resolved.
          mapToProductWithQuantity (products_cmd command) activeProducts = Inr resolved \<and>
          this' = this\<lparr>products := resolved\<rparr> \<and>
          bindOrderTypeSelection clock this' command closingPeriods True = Inl e)) \<and>
   (\<forall>e this1. order_id this = Some (orderId command) \<and>
        bindProductSelection this command activeProducts = Inr this1 \<and>
        bindOrderTypeSelection clock this1 command closingPeriods True = Inl e \<longrightarrow>
      updateWith clock this command activeProducts closingPeriods = (Some e, this1) \<and>
      (\<exists>resolved.
          mapToProductWithQuantity (products_cmd command) activeProducts = Inr resolved \<and>
          this1 = this\<lparr>products := resolved\<rparr>))"
proof (intro conjI allI impI)
  assume "order_id this \<noteq> Some (orderId command)"
  then show "updateWith clock this command activeProducts closingPeriods =
        (Some (InvalidOrderError
                [Txt ''existing order id '', OptNum (order_id this),
                 Txt '' does not match command order id '', Num (orderId command)]),
         this)"
    by (simp add: updateWith_cases)
next
  fix e
  assume "order_id this = Some (orderId command) \<and>
        bindProductSelection this command activeProducts = Inl e"
  then show "updateWith clock this command activeProducts closingPeriods = (Some e, this)"
    by (simp add: updateWith_cases)
next
  fix e this'
  assume "updateWith clock this command activeProducts closingPeriods = (Some e, this')"
  from updateWith_Some [OF this]
  show "this' = this\<lparr>products := products this'\<rparr>" by auto
next
  fix e this'
  assume "updateWith clock this command activeProducts closingPeriods = (Some e, this') \<and>
        this' \<noteq> this"
  then have u: "updateWith clock this command activeProducts closingPeriods = (Some e, this')"
    and changed: "this' \<noteq> this" by simp_all
  from updateWith_Some [OF u] changed
  show "\<exists>resolved.
          mapToProductWithQuantity (products_cmd command) activeProducts = Inr resolved \<and>
          this' = this\<lparr>products := resolved\<rparr> \<and>
          bindOrderTypeSelection clock this' command closingPeriods True = Inl e"
    by blast
next
  fix e this1
  assume "order_id this = Some (orderId command) \<and>
        bindProductSelection this command activeProducts = Inr this1 \<and>
        bindOrderTypeSelection clock this1 command closingPeriods True = Inl e"
  then show "updateWith clock this command activeProducts closingPeriods = (Some e, this1)"
    by (simp add: updateWith_cases)
next
  fix e this1
  assume "order_id this = Some (orderId command) \<and>
        bindProductSelection this command activeProducts = Inr this1 \<and>
        bindOrderTypeSelection clock this1 command closingPeriods True = Inl e"
  then have "bindProductSelection this command activeProducts = Inr this1" by simp
  from bindProductSelection_Inr [OF this]
  show "\<exists>resolved.
          mapToProductWithQuantity (products_cmd command) activeProducts = Inr resolved \<and>
          this1 = this\<lparr>products := resolved\<rparr>" .
qed

theorem updateWith_failure_witness:
  "order_id existingOrder \<noteq> Some (orderId (updateOrderCommand\<lparr>orderId := 1337\<rparr>)) \<and>
   updateWith (clockAt now) existingOrder (updateOrderCommand\<lparr>orderId := 1337\<rparr>)
     [fakeProduct] [] =
     (Some (InvalidOrderError
             [Txt ''existing order id '', OptNum (Some 42),
              Txt '' does not match command order id '', Num 1337]),
      existingOrder) \<and>
   order_id existingOrder = Some (orderId updateOrderCommand) \<and>
   bindProductSelection existingOrder updateOrderCommand [] =
     Inl (InvalidOrderError [Txt ''product with id '', Num 42, Txt '' not found'']) \<and>
   updateWith (clockAt now) existingOrder updateOrderCommand [] [] =
     (Some (InvalidOrderError [Txt ''product with id '', Num 42, Txt '' not found'']),
      existingOrder) \<and>
   order_id existingOrder =
     Some (orderId (updateOrderCommand\<lparr>deliveryAddress_cmd := Some []\<rparr>)) \<and>
   bindProductSelection existingOrder
     (updateOrderCommand\<lparr>deliveryAddress_cmd := Some []\<rparr>) [fakeProduct] =
     Inr (existingOrder\<lparr>products := [\<lparr>product = fakeProduct, quantity = 1\<rparr>]\<rparr>) \<and>
   bindOrderTypeSelection (clockAt now)
     (existingOrder\<lparr>products := [\<lparr>product = fakeProduct, quantity = 1\<rparr>]\<rparr>)
     (updateOrderCommand\<lparr>deliveryAddress_cmd := Some []\<rparr>) [] True =
     Inl (InvalidOrderError
           [Txt ''a delivery address has to be defined when order type is delivery'']) \<and>
   updateWith (clockAt now) existingOrder
     (updateOrderCommand\<lparr>deliveryAddress_cmd := Some []\<rparr>) [fakeProduct] [] =
     (Some (InvalidOrderError
             [Txt ''a delivery address has to be defined when order type is delivery'']),
      existingOrder\<lparr>products := [\<lparr>product = fakeProduct, quantity = 1\<rparr>]\<rparr>) \<and>
   existingOrder\<lparr>products := [\<lparr>product = fakeProduct, quantity = 1\<rparr>]\<rparr> \<noteq> existingOrder \<and>
   (\<exists>resolved.
       mapToProductWithQuantity
         (products_cmd (updateOrderCommand\<lparr>deliveryAddress_cmd := Some []\<rparr>)) [fakeProduct]
         = Inr resolved \<and>
       existingOrder\<lparr>products := [\<lparr>product = fakeProduct, quantity = 1\<rparr>]\<rparr> =
         existingOrder\<lparr>products := resolved\<rparr>)"
proof -
  let ?partial = "existingOrder\<lparr>products := [\<lparr>product = fakeProduct, quantity = 1\<rparr>]\<rparr>"
  let ?noAddress = "updateOrderCommand\<lparr>deliveryAddress_cmd := Some []\<rparr>"
  have ids: "order_id existingOrder \<noteq> Some (orderId (updateOrderCommand\<lparr>orderId := 1337\<rparr>))"
    "order_id existingOrder = Some (orderId updateOrderCommand)"
    "order_id existingOrder = Some 42" "orderId (updateOrderCommand\<lparr>orderId := 1337\<rparr>) = 1337"
    by (simp_all add: existingOrder_def updateOrderCommand_def)
  have notFound: "bindProductSelection existingOrder updateOrderCommand [] =
     Inl (InvalidOrderError [Txt ''product with id '', Num 42, Txt '' not found''])"
    by (simp add: bindProductSelection_def assert_defs updateOrderCommand_def)
  have id_na: "order_id existingOrder = Some (orderId ?noAddress)"
    by (simp add: existingOrder_def updateOrderCommand_def)
  have bound: "bindProductSelection existingOrder ?noAddress [fakeProduct] = Inr ?partial"
    by (simp add: bindProductSelection_def assert_defs updateOrderCommand_def fakeProduct_def)
  have rejected: "bindOrderTypeSelection (clockAt now) ?partial ?noAddress [] True =
     Inl (InvalidOrderError
           [Txt ''a delivery address has to be defined when order type is delivery''])"
    by (simp add: bindOrderTypeSelection_def assert_defs
        existingOrder_def updateOrderCommand_def fakeProduct_def now_def
        isFirstDateBeforeSecondDateIgnoringHours_def date_defs day_defs Let_def
        PICK_UP_def DELIVERY_def RESERVATION_def)
  from updateWith_failure [of existingOrder ?noAddress "clockAt now" "[fakeProduct]" "[]"]
    id_na bound rejected
  have thrown: "updateWith (clockAt now) existingOrder ?noAddress [fakeProduct] [] =
     (Some (InvalidOrderError
             [Txt ''a delivery address has to be defined when order type is delivery'']),
      ?partial)"
    by blast
  have changed: "?partial \<noteq> existingOrder"
    by (simp add: existingOrder_def fakeProduct_def)
  note mismatch = updateWith_failure
    [of existingOrder "updateOrderCommand\<lparr>orderId := 1337\<rparr>" "clockAt now" "[fakeProduct]" "[]"]
  note products = updateWith_failure [of existingOrder updateOrderCommand "clockAt now" "[]" "[]"]
  note dates = updateWith_failure [of existingOrder ?noAddress "clockAt now" "[fakeProduct]" "[]"]
  from mismatch ids
  have r1: "updateWith (clockAt now) existingOrder (updateOrderCommand\<lparr>orderId := 1337\<rparr>)
     [fakeProduct] [] =
     (Some (InvalidOrderError
             [Txt ''existing order id '', OptNum (Some 42),
              Txt '' does not match command order id '', Num 1337]),
      existingOrder)" by simp
  from products ids(2) notFound
  have r2: "updateWith (clockAt now) existingOrder updateOrderCommand [] [] =
     (Some (InvalidOrderError [Txt ''product with id '', Num 42, Txt '' not found'']),
      existingOrder)" by blast
  from dates thrown changed
  have r3: "\<exists>resolved.
       mapToProductWithQuantity (products_cmd ?noAddress) [fakeProduct] = Inr resolved \<and>
       ?partial = existingOrder\<lparr>products := resolved\<rparr>" by blast
  show ?thesis using ids(1,2) r1 notFound r2 id_na bound rejected thrown changed r3 by blast
qed

text \<open>
  C7. \<^verbatim>\<open>updateWith\<close> never throws an \<^verbatim>\<open>InvalidUserError\<close> and never one of the three
  errors of the lead-time rules of a non-admin creation; whatever it does, the name, the
  phone number and the e-mail address of the client are those of the order before the call.
  It succeeds whenever the order id matches and the products, the type and the dates pass the
  validations of an admin, so a reservation is permitted and no lead-time rule is applied.
\<close>

theorem updateWith_as_admin:
  "(\<forall>m. fst (updateWith clock this command activeProducts closingPeriods)
          \<noteq> Some (InvalidUserError m)) \<and>
   (\<forall>d n. fst (updateWith clock this command activeProducts closingPeriods)
            \<noteq> Some (cannotBeSameDayAsNow d) \<and>
          fst (updateWith clock this command activeProducts closingPeriods)
            \<noteq> Some (hasToBeAtLeastDaysAfterNow d n) \<and>
          fst (updateWith clock this command activeProducts closingPeriods)
            \<noteq> Some (hasToBeOneOfTheNextAvailableThursday d)) \<and>
   clientName (snd (updateWith clock this command activeProducts closingPeriods))
     = clientName this \<and>
   clientPhoneNumber (snd (updateWith clock this command activeProducts closingPeriods))
     = clientPhoneNumber this \<and>
   clientEmailAddress (snd (updateWith clock this command activeProducts closingPeriods))
     = clientEmailAddress this \<and>
   (\<forall>this1 this2.
       order_id this = Some (orderId command) \<and>
       bindProductSelection this command activeProducts = Inr this1 \<and>
       bindOrderTypeSelection clock this1 command closingPeriods True = Inr this2 \<longrightarrow>
       updateWith clock this command activeProducts closingPeriods =
         (None, this2\<lparr>note_order := note_cmd command\<rparr>))"
proof -
  let ?u = "updateWith clock this command activeProducts closingPeriods"
  obtain r this' where u: "?u = (r, this')" by (cases ?u)
  have kind: "(\<forall>m. e \<noteq> InvalidUserError m) \<and> e \<noteq> cannotBeSameDayAsNow d \<and>
              e \<noteq> hasToBeAtLeastDaysAfterNow d n \<and>
              e \<noteq> hasToBeOneOfTheNextAvailableThursday d"
    if "r = Some e" for e d n
  proof -
    from u that have "?u = (Some e, this')" by simp
    from updateWith_Some [OF this] consider
        (mismatch) "order_id this \<noteq> Some (orderId command)"
      | (products) "bindProductSelection this command activeProducts = Inl e"
      | (dates) "bindOrderTypeSelection clock this' command closingPeriods True = Inl e"
      by blast
    then show ?thesis
    proof cases
      case mismatch
      with u that have "e = InvalidOrderError
                   [Txt ''existing order id '', OptNum (order_id this),
                    Txt '' does not match command order id '', Num (orderId command)]"
        by (auto simp add: updateWith_cases)
      then show ?thesis
        by (simp add: cannotBeSameDayAsNow_def hasToBeAtLeastDaysAfterNow_def
            hasToBeOneOfTheNextAvailableThursday_def)
    next
      case products
      then show ?thesis by (rule bindProductSelection_error_kind)
    next
      case dates
      then show ?thesis by (rule bindOrderTypeSelection_admin_error_kind)
    qed
  qed
  have contact: "clientName this' = clientName this \<and>
                 clientPhoneNumber this' = clientPhoneNumber this \<and>
                 clientEmailAddress this' = clientEmailAddress this"
  proof (cases r)
    case None
    with u have "?u = (None, this')" by simp
    from updateWith_None [OF this] obtain this1 this2
      where "bindProductSelection this command activeProducts = Inr this1"
        and "bindOrderTypeSelection clock this1 command closingPeriods True = Inr this2"
        and "this' = this2\<lparr>note_order := note_cmd command\<rparr>" by blast
    with bindProductSelection_Inr [of this command activeProducts this1]
      bindOrderTypeSelection_Inr [of clock this1 command closingPeriods True this2]
    show ?thesis by auto
  next
    case (Some e)
    with u have "?u = (Some e, this')" by simp
    from updateWith_Some [OF this] show ?thesis by auto
  qed
  have success: "?u = (None, this2\<lparr>note_order := note_cmd command\<rparr>)"
    if "order_id this = Some (orderId command) \<and>
        bindProductSelection this command activeProducts = Inr this1 \<and>
        bindOrderTypeSelection clock this1 command closingPeriods True = Inr this2"
    for this1 this2
    using that by (simp add: updateWith_cases)
  have errors: "(\<forall>m. r \<noteq> Some (InvalidUserError m)) \<and>
     (\<forall>d n. r \<noteq> Some (cannotBeSameDayAsNow d) \<and>
            r \<noteq> Some (hasToBeAtLeastDaysAfterNow d n) \<and>
            r \<noteq> Some (hasToBeOneOfTheNextAvailableThursday d))"
  proof (cases r)
    case None
    then show ?thesis by simp
  next
    case (Some e)
    from kind [OF this] show ?thesis unfolding Some by blast
  qed
  from errors contact success show ?thesis unfolding u fst_conv snd_conv by blast
qed

theorem updateWith_as_admin_witness:
  "order_id existingOrder =
     Some (orderId (updateOrderCommand\<lparr>deliveryDate_cmd := Some firstThursdayAfterTuesday\<rparr>)) \<and>
   bindProductSelection existingOrder
     (updateOrderCommand\<lparr>deliveryDate_cmd := Some firstThursdayAfterTuesday\<rparr>) [fakeProduct] =
     Inr (existingOrder\<lparr>products := [\<lparr>product = fakeProduct, quantity = 1\<rparr>]\<rparr>) \<and>
   bindOrderTypeSelection (clockAt tuesdayAtSevenPM)
     (existingOrder\<lparr>products := [\<lparr>product = fakeProduct, quantity = 1\<rparr>]\<rparr>)
     (updateOrderCommand\<lparr>deliveryDate_cmd := Some firstThursdayAfterTuesday\<rparr>) [] True =
     Inr (updatedOrder\<lparr>deliveryDate := Some firstThursdayAfterTuesday,
                       note_order := Some ''a note''\<rparr>) \<and>
   updateWith (clockAt tuesdayAtSevenPM) existingOrder
     (updateOrderCommand\<lparr>deliveryDate_cmd := Some firstThursdayAfterTuesday\<rparr>)
     [fakeProduct] [] =
     (None, updatedOrder\<lparr>deliveryDate := Some firstThursdayAfterTuesday\<rparr>) \<and>
   assertDeliveryDateIsEqualOrAfterTheFirstAvailableDay (clockAt tuesdayAtSevenPM) DELIVERY
     (Some firstThursdayAfterTuesday) =
     Inl (hasToBeOneOfTheNextAvailableThursday firstThursdayAfterTuesday) \<and>
   updateWith (clockAt now) existingOrder
     (updateOrderCommand\<lparr>type_cmd := RESERVATION,
                         reservationDate_cmd := Some aTuesdayInTheFutureBeforeSevenPM\<rparr>)
     [fakeProduct] [] =
     (None, existingOrder\<lparr>products := [\<lparr>product = fakeProduct, quantity = 1\<rparr>],
                          orderType := RESERVATION, pickUpDate := None, deliveryDate := None,
                          deliveryAddress := None,
                          reservationDate := Some aTuesdayInTheFutureBeforeSevenPM,
                          note_order := Some ''an updated note''\<rparr>)"
proof -
  let ?cmd = "updateOrderCommand\<lparr>deliveryDate_cmd := Some firstThursdayAfterTuesday\<rparr>"
  let ?this1 = "existingOrder\<lparr>products := [\<lparr>product = fakeProduct, quantity = 1\<rparr>]\<rparr>"
  let ?this2 = "updatedOrder\<lparr>deliveryDate := Some firstThursdayAfterTuesday,
                            note_order := Some ''a note''\<rparr>"
  have id: "order_id existingOrder = Some (orderId ?cmd)"
    by (simp add: existingOrder_def updateOrderCommand_def)
  have products: "bindProductSelection existingOrder ?cmd [fakeProduct] = Inr ?this1"
    by (simp add: bindProductSelection_def assert_defs updateOrderCommand_def fakeProduct_def)
  have dates: "bindOrderTypeSelection (clockAt tuesdayAtSevenPM) ?this1 ?cmd [] True = Inr ?this2"
    by (simp add: bindOrderTypeSelection_def assert_defs
        existingOrder_def updateOrderCommand_def updatedOrder_def fakeProduct_def
        isFirstDateBeforeSecondDateIgnoringHours_def date_defs day_defs example_dates Let_def
        PICK_UP_def DELIVERY_def RESERVATION_def)
  have rule: "assertDeliveryDateIsEqualOrAfterTheFirstAvailableDay (clockAt tuesdayAtSevenPM)
     DELIVERY (Some firstThursdayAfterTuesday) =
     Inl (hasToBeOneOfTheNextAvailableThursday firstThursdayAfterTuesday)"
    by (simp add: assertDeliveryDateIsEqualOrAfterTheFirstAvailableDay_def date_defs day_defs
        example_dates Let_def MAXIMUM_DAY_FOR_DELIVERY_SAME_WEEK_def
        MAXIMUM_HOUR_FOR_DELIVERY_SAME_WEEK_def)
  have noted: "?this2\<lparr>note_order := note_cmd ?cmd\<rparr> =
              updatedOrder\<lparr>deliveryDate := Some firstThursdayAfterTuesday\<rparr>"
    by (simp add: updatedOrder_def updateOrderCommand_def)
  from updateWith_as_admin [of "clockAt tuesdayAtSevenPM" existingOrder ?cmd "[fakeProduct]" "[]"]
    id products dates
  have "updateWith (clockAt tuesdayAtSevenPM) existingOrder ?cmd [fakeProduct] [] =
     (None, ?this2\<lparr>note_order := note_cmd ?cmd\<rparr>)" by blast
  then have updated: "updateWith (clockAt tuesdayAtSevenPM) existingOrder ?cmd [fakeProduct] [] =
     (None, updatedOrder\<lparr>deliveryDate := Some firstThursdayAfterTuesday\<rparr>)"
    unfolding noted .
  let ?res = "updateOrderCommand\<lparr>type_cmd := RESERVATION,
                reservationDate_cmd := Some aTuesdayInTheFutureBeforeSevenPM\<rparr>"
  let ?this3 = "?this1\<lparr>orderType := RESERVATION, pickUpDate := None, deliveryDate := None,
                       deliveryAddress := None,
                       reservationDate := Some aTuesdayInTheFutureBeforeSevenPM\<rparr>"
  have id_res: "order_id existingOrder = Some (orderId ?res)"
    by (simp add: existingOrder_def updateOrderCommand_def)
  have products_res: "bindProductSelection existingOrder ?res [fakeProduct] = Inr ?this1"
    by (simp add: bindProductSelection_def assert_defs updateOrderCommand_def fakeProduct_def)
  have dates_res: "bindOrderTypeSelection (clockAt now) ?this1 ?res [] True = Inr ?this3"
    by (simp add: bindOrderTypeSelection_def assert_defs
        existingOrder_def updateOrderCommand_def fakeProduct_def now_def
        isFirstDateBeforeSecondDateIgnoringHours_def date_defs day_defs example_dates Let_def
        PICK_UP_def DELIVERY_def RESERVATION_def)
  have noted_res: "?this3\<lparr>note_order := note_cmd ?res\<rparr> =
     existingOrder\<lparr>products := [\<lparr>product = fakeProduct, quantity = 1\<rparr>],
                   orderType := RESERVATION, pickUpDate := None, deliveryDate := None,
                   deliveryAddress := None,
                   reservationDate := Some aTuesdayInTheFutureBeforeSevenPM,
                   note_order := Some ''an updated note''\<rparr>"
    by (simp add: updateOrderCommand_def)
  from updateWith_as_admin [of "clockAt now" existingOrder ?res "[fakeProduct]" "[]"]
    id_res products_res dates_res
  have "updateWith (clockAt now) existingOrder ?res [fakeProduct] [] =
     (None, ?this3\<lparr>note_order := note_cmd ?res\<rparr>)" by blast
  then have reserved: "updateWith (clockAt now) existingOrder ?res [fakeProduct] [] =
     (None, existingOrder\<lparr>products := [\<lparr>product = fakeProduct, quantity = 1\<rparr>],
                          orderType := RESERVATION, pickUpDate := None, deliveryDate := None,
                          deliveryAddress := None,
                          reservationDate := Some aTuesdayInTheFutureBeforeSevenPM,
                          note_order := Some ''an updated note''\<rparr>)"
    unfolding noted_res .
  show ?thesis using id products dates updated rule reserved by blast
qed

section \<open>Reservations\<close>

text \<open>
  C6. For a command of type \<^verbatim>\<open>RESERVATION\<close> and a caller who is not an admin, the
  validation of the type throws the \<^verbatim>\<open>InvalidUserError\<close>
  \<^verbatim>\<open>RESERVATION order type requires to be ADMIN\<close>, which is not an
  \<^verbatim>\<open>InvalidOrderError\<close>. The creation always fails, and it fails with that error
  whenever the contact details and the products, which are validated first, are valid.
  When the creation has failed with an \<^verbatim>\<open>InvalidUserError\<close>, the same command with an
  admin caller and a reservation date that is not before today, falls on Tuesday to Saturday
  and is outside every closing period creates the reservation.
\<close>

theorem reservation_requires_admin:
  "type_cmd command = RESERVATION \<longrightarrow>
     assertTypeIsValid (type_cmd command) False =
       Inl (InvalidUserError [Txt ''RESERVATION order type requires to be ADMIN'']) \<and>
     (\<forall>m. InvalidUserError [Txt ''RESERVATION order type requires to be ADMIN'']
            \<noteq> InvalidOrderError m) \<and>
     (\<exists>e. create clock table command activeProducts closingPeriods False = Some (Inl e)) \<and>
     (\<forall>this1 this2.
         bindContactDetails newObject command = Inr this1 \<and>
         bindProductSelection this1 command activeProducts = Inr this2 \<longrightarrow>
         create clock table command activeProducts closingPeriods False =
           Some (Inl (InvalidUserError [Txt ''RESERVATION order type requires to be ADMIN'']))) \<and>
     (\<forall>d. (\<exists>m. create clock table command activeProducts closingPeriods False =
                  Some (Inl (InvalidUserError m))) \<and>
          reservationDate_cmd command = Some d \<and>
          \<not> dayNumber d < dayNumber (easternNow clock) \<and>
          TUESDAY \<le> getDay d \<and> getDay d \<le> SATURDAY \<and>
          (\<forall>p \<in> set closingPeriods. \<not> isInClosingPeriod d p) \<longrightarrow>
          (\<exists>order. create clock table command activeProducts closingPeriods True =
                      Some (Inr order) \<and>
                   orderType order = RESERVATION \<and> reservationDate order = Some d \<and>
                   clientName order = clientName_cmd command))"
proof (intro impI conjI allI)
  assume t: "type_cmd command = RESERVATION"
  show "assertTypeIsValid (type_cmd command) False =
       Inl (InvalidUserError [Txt ''RESERVATION order type requires to be ADMIN''])"
    by (simp add: t assertTypeIsValid_def OrderType_keys_def isEmpty_def RESERVATION_def)
  show "\<exists>e. create clock table command activeProducts closingPeriods False = Some (Inl e)"
    by (simp add: create_RESERVATION_not_admin [OF t] split: sum.splits)
next
  fix m
  show "InvalidUserError [Txt ''RESERVATION order type requires to be ADMIN'']
          \<noteq> InvalidOrderError m" by simp
next
  fix this1 this2
  assume t: "type_cmd command = RESERVATION"
    and "bindContactDetails newObject command = Inr this1 \<and>
         bindProductSelection this1 command activeProducts = Inr this2"
  then show "create clock table command activeProducts closingPeriods False =
           Some (Inl (InvalidUserError [Txt ''RESERVATION order type requires to be ADMIN'']))"
    by (simp add: create_RESERVATION_not_admin [OF t])
next
  fix d
  assume t: "type_cmd command = RESERVATION"
    and a: "(\<exists>m. create clock table command activeProducts closingPeriods False =
                  Some (Inl (InvalidUserError m))) \<and>
          reservationDate_cmd command = Some d \<and>
          \<not> dayNumber d < dayNumber (easternNow clock) \<and>
          TUESDAY \<le> getDay d \<and> getDay d \<le> SATURDAY \<and>
          (\<forall>p \<in> set closingPeriods. \<not> isInClosingPeriod d p)"
  then obtain m where failed: "create clock table command activeProducts closingPeriods False =
                  Some (Inl (InvalidUserError m))" by blast
  obtain this1 where c: "bindContactDetails newObject command = Inr this1"
  proof (cases "bindContactDetails newObject command")
    case (Inl e)
    from bindContactDetails_Inl [OF this] failed Inl show ?thesis
      by (auto simp add: create_RESERVATION_not_admin [OF t])
  next
    case (Inr this1)
    then show ?thesis by (rule that)
  qed
  obtain this2 where p: "bindProductSelection this1 command activeProducts = Inr this2"
  proof (cases "bindProductSelection this1 command activeProducts")
    case (Inl e)
    from bindProductSelection_error_kind [OF this] failed Inl c show ?thesis
      by (auto simp add: create_RESERVATION_not_admin [OF t])
  next
    case (Inr this2)
    then show ?thesis by (rule that)
  qed
  from a have "assertReservationDateIsValid clock RESERVATION closingPeriods
                 (reservationDate_cmd command) = Inr ()"
    by (simp add: assertReservationDateIsValid_ok)
  from create_RESERVATION_admin [OF t c p this] a bindContactDetails_Inr [OF c]
    bindProductSelection_Inr [OF p]
  show "\<exists>order. create clock table command activeProducts closingPeriods True =
                      Some (Inr order) \<and>
                   orderType order = RESERVATION \<and> reservationDate order = Some d \<and>
                   clientName order = clientName_cmd command"
    by auto
qed

theorem reservation_requires_admin_witness:
  "type_cmd (reservationCommand aTuesdayInTheFutureBeforeSevenPM) = RESERVATION \<and>
   create (clockAt now) referenceTable (reservationCommand aTuesdayInTheFutureBeforeSevenPM)
     [fakeProduct] [] False =
     Some (Inl (InvalidUserError [Txt ''RESERVATION order type requires to be ADMIN''])) \<and>
   reservationDate_cmd (reservationCommand aTuesdayInTheFutureBeforeSevenPM) =
     Some aTuesdayInTheFutureBeforeSevenPM \<and>
   \<not> dayNumber aTuesdayInTheFutureBeforeSevenPM < dayNumber (easternNow (clockAt now)) \<and>
   TUESDAY \<le> getDay aTuesdayInTheFutureBeforeSevenPM \<and>
   getDay aTuesdayInTheFutureBeforeSevenPM \<le> SATURDAY \<and>
   (\<exists>order. create (clockAt now) referenceTable
              (reservationCommand aTuesdayInTheFutureBeforeSevenPM) [fakeProduct] [] True =
              Some (Inr order) \<and>
            orderType order = RESERVATION \<and>
            reservationDate order = Some aTuesdayInTheFutureBeforeSevenPM) \<and>
   create (clockAt now) referenceTable (reservationCommand aTuesdayInTheFutureBeforeSevenPM)
     [fakeProduct] [] True = Some (Inr (reservationOrder aTuesdayInTheFutureBeforeSevenPM))"
proof -
  let ?d = aTuesdayInTheFutureBeforeSevenPM
  let ?c = "reservationCommand ?d"
  have t: "type_cmd ?c = RESERVATION" and r: "reservationDate_cmd ?c = Some ?d"
    by (simp_all add: reservationCommand_def)
  have failed: "create (clockAt now) referenceTable ?c [fakeProduct] [] False =
     Some (Inl (InvalidUserError [Txt ''RESERVATION order type requires to be ADMIN'']))"
    by (rule create_reservationCommand_not_admin)
  have date: "\<not> dayNumber ?d < dayNumber (easternNow (clockAt now))"
    "TUESDAY \<le> getDay ?d" "getDay ?d \<le> SATURDAY"
    by (simp_all add: date_defs day_defs example_dates now_def)
  have admin: "create (clockAt now) referenceTable ?c [fakeProduct] [] True =
        Some (Inr (reservationOrder ?d))"
    by (rule create_reservationCommand_as_admin)
       (simp_all add: date_defs day_defs example_dates now_def)
  from reservation_requires_admin [of ?c "clockAt now" referenceTable "[fakeProduct]" "[]"]
    t r failed date
  have "\<exists>order. create (clockAt now) referenceTable ?c [fakeProduct] [] True =
              Some (Inr order) \<and>
            orderType order = RESERVATION \<and> reservationDate order = Some ?d"
    by auto
  then show ?thesis using t r failed date admin by blast
qed

end
